theory Spec2Isabelle
  imports Main
begin

section \<open>The homomorphic evaluator of SEAL (native/src/seal/evaluator.cpp)\<close>

text \<open>
  A shallow embedding of \<^verbatim>\<open>seal::Evaluator\<close>. Every member function of the source that
  mutates a ciphertext becomes a function from the ciphertext to an \<open>outcome\<close>: the
  ciphertext as the call leaves it, with the exception when one was thrown. The classes
  the evaluator only consumes (context, RNS tool, NTT tables, Galois tool, keys) are
  records whose operations are fields, so that every theorem holds for whatever these
  collaborators compute.
\<close>

subsection \<open>Exceptions and outcomes\<close>

text \<open>
  The three exception classes the source throws, with their messages. Dereferencing a
  null \<^verbatim>\<open>shared_ptr\<close> or reading past the end of a vector is not an exception in C++;
  the model stops there with \<open>undefined_behaviour\<close> instead of inventing a value.
\<close>

datatype error =
    invalid_argument string
  | logic_error string
  | out_of_range string
  | undefined_behaviour string

datatype 'a outcome = Returned 'a | Thrown error 'a

fun state_of :: "'a outcome \<Rightarrow> 'a" where
  "state_of (Returned s) = s"
| "state_of (Thrown e s) = s"

fun thrown :: "'a outcome \<Rightarrow> error option" where
  "thrown (Returned s) = None"
| "thrown (Thrown e s) = Some e"

fun is_invalid_argument :: "error \<Rightarrow> bool" where
  "is_invalid_argument (invalid_argument m) = True"
| "is_invalid_argument e = False"

text \<open>Running \<open>k\<close> on the state a call returned; a throw ends the sequence.\<close>

fun and_then :: "'a outcome \<Rightarrow> ('a \<Rightarrow> 'a outcome) \<Rightarrow> 'a outcome" where
  "and_then (Returned s) k = k s"
| "and_then (Thrown e s) k = Thrown e s"

text \<open>\<^verbatim>\<open>auto &x = *p;\<close> with the object \<open>s\<close> under mutation at that point.\<close>

definition deref :: "'p option \<Rightarrow> 'a \<Rightarrow> ('p \<Rightarrow> 'a outcome) \<Rightarrow> 'a outcome" where
  "deref p s k = (case p of None \<Rightarrow> Thrown (undefined_behaviour ''null pointer dereference'') s | Some x \<Rightarrow> k x)"

subsection \<open>Checked size arithmetic (seal/util/common.h)\<close>

text \<open>
  Modelled from the spec: \<^verbatim>\<open>add_safe\<close>, \<open>sub_safe\<close>, \<open>mul_safe\<close> and \<open>product_fits_in\<close> live in
  seal/util/common.h, which is not part of the sources at hand. The spec (sections 4.1
  and 7) makes an overflow of size arithmetic a logic error and \<open>product_fits_in\<close> the
  guard that detects it. \<^verbatim>\<open>size_t\<close> and \<^verbatim>\<open>uint64_t\<close> are 64 bits wide.
\<close>

definition uint64_max :: nat where
  "uint64_max = 2 ^ 64 - 1"

definition add_safe :: "nat \<Rightarrow> nat \<Rightarrow> error + nat" where
  "add_safe in1 in2 =
     (if in1 + in2 > uint64_max then Inl (logic_error ''unsigned overflow'') else Inr (in1 + in2))"

definition sub_safe :: "nat \<Rightarrow> nat \<Rightarrow> error + nat" where
  "sub_safe in1 in2 =
     (if in1 < in2 then Inl (logic_error ''unsigned underflow'') else Inr (in1 - in2))"

definition mul_safe :: "nat \<Rightarrow> nat \<Rightarrow> error + nat" where
  "mul_safe in1 in2 =
     (if in1 * in2 > uint64_max then Inl (logic_error ''unsigned overflow'') else Inr (in1 * in2))"

definition product_fits_in :: "nat list \<Rightarrow> bool" where
  "product_fits_in ins = (prod_list ins \<le> uint64_max)"

subsection \<open>Coefficient arithmetic (seal/util/polyarithsmallmod.h, uintarithsmallmod.h)\<close>

text \<open>
  One RNS component of a polynomial is a list of \<^verbatim>\<open>uint64_t\<close> coefficients; a polynomial
  is the list of its components, one per prime; the data of a ciphertext is the list of
  its polynomials.
\<close>

type_synonym coeff_poly = "nat list"
type_synonym rns_poly = "nat list list"

text \<open>
  Modelled from the spec: the coefficient-wise helpers are defined in
  seal/util/polyarithsmallmod.h, not part of the sources at hand. The spec gives them as
  componentwise arithmetic modulo the current prime (sections 4.2, 4.3) and negation as
  "replace coefficient x by q - x if x is not 0, else 0". Each takes the operands, the
  number of coefficients and the modulus, and returns what the source writes to its
  result pointer.
\<close>

definition add_uint_uint_mod :: "nat \<Rightarrow> nat \<Rightarrow> nat \<Rightarrow> nat" where
  "add_uint_uint_mod a b q = (a + b) mod q"

definition sub_uint_uint_mod :: "nat \<Rightarrow> nat \<Rightarrow> nat \<Rightarrow> nat" where
  "sub_uint_uint_mod a b q = nat ((int a - int b) mod int q)"

definition negate_uint_mod :: "nat \<Rightarrow> nat \<Rightarrow> nat" where
  "negate_uint_mod a q = (if a \<noteq> 0 then q - a else 0)"

definition multiply_uint_uint_mod :: "nat \<Rightarrow> nat \<Rightarrow> nat \<Rightarrow> nat" where
  "multiply_uint_uint_mod a b q = (a * b) mod q"

definition add_poly_poly_coeffmod :: "coeff_poly \<Rightarrow> coeff_poly \<Rightarrow> nat \<Rightarrow> nat \<Rightarrow> coeff_poly" where
  "add_poly_poly_coeffmod operand1 operand2 coeff_count modulus =
     map (\<lambda>l. add_uint_uint_mod (operand1 ! l) (operand2 ! l) modulus) [0..<coeff_count]"

definition sub_poly_poly_coeffmod :: "coeff_poly \<Rightarrow> coeff_poly \<Rightarrow> nat \<Rightarrow> nat \<Rightarrow> coeff_poly" where
  "sub_poly_poly_coeffmod operand1 operand2 coeff_count modulus =
     map (\<lambda>l. sub_uint_uint_mod (operand1 ! l) (operand2 ! l) modulus) [0..<coeff_count]"

definition negate_poly_coeffmod :: "coeff_poly \<Rightarrow> nat \<Rightarrow> nat \<Rightarrow> coeff_poly" where
  "negate_poly_coeffmod poly coeff_count modulus =
     map (\<lambda>l. negate_uint_mod (poly ! l) modulus) [0..<coeff_count]"

definition dyadic_product_coeffmod :: "coeff_poly \<Rightarrow> coeff_poly \<Rightarrow> nat \<Rightarrow> nat \<Rightarrow> coeff_poly" where
  "dyadic_product_coeffmod operand1 operand2 coeff_count modulus =
     map (\<lambda>l. multiply_uint_uint_mod (operand1 ! l) (operand2 ! l) modulus) [0..<coeff_count]"

definition multiply_poly_scalar_coeffmod :: "coeff_poly \<Rightarrow> nat \<Rightarrow> nat \<Rightarrow> nat \<Rightarrow> coeff_poly" where
  "multiply_poly_scalar_coeffmod poly coeff_count scalar modulus =
     map (\<lambda>l. multiply_uint_uint_mod (poly ! l) scalar modulus) [0..<coeff_count]"

text \<open>
  Modelled from the spec: the copying and zeroing helpers of seal/util/uintcore.h and
  polycore.h are not part of the sources at hand. \<^verbatim>\<open>set_uint_uint\<close> copies \<open>count\<close> words
  (section 4.3, step 3: "kept as a copy of the original input"); \<^verbatim>\<open>allocate_zero_poly\<close>
  gives zeroed scratch.
\<close>

definition set_uint_uint :: "coeff_poly \<Rightarrow> nat \<Rightarrow> coeff_poly" where
  "set_uint_uint value count = take count value"

definition zero_uint :: "nat \<Rightarrow> coeff_poly" where
  "zero_uint coeff_count = replicate coeff_count 0"

definition zero_poly :: "nat \<Rightarrow> nat \<Rightarrow> rns_poly" where
  "zero_poly coeff_count coeff_modulus_count = replicate coeff_modulus_count (zero_uint coeff_count)"

subsection \<open>Encryption parameters and the context chain\<close>

text \<open>
  The context is built outside the evaluator (spec, section 3). A parameter point is a
  \<open>context_data\<close>; its \<open>next_context_data\<close> is the shared pointer to the next point of the
  modulus switching chain, null at the last one. The value \<open>other_scheme\<close> stands for
  whatever reaches the \<^verbatim>\<open>default:\<close> branch of a switch over the scheme.
\<close>

type_synonym parms_id_type = nat

definition parms_id_zero :: parms_id_type where
  "parms_id_zero = 0"

datatype scheme_type = BFV | CKKS | other_scheme

record encryption_parameters =
  scheme :: scheme_type
  poly_modulus_degree :: nat
  coeff_modulus :: "nat list"
  plain_modulus :: nat

text \<open>
  The transforms of seal/util/smallntt.h are not part of the sources at hand and no claim
  depends on what they compute: a table is given by the four transforms it drives.
\<close>

record small_ntt_tables =
  ntt_negacyclic_harvey :: "coeff_poly \<Rightarrow> coeff_poly"
  ntt_negacyclic_harvey_lazy :: "coeff_poly \<Rightarrow> coeff_poly"
  inverse_ntt_negacyclic_harvey :: "coeff_poly \<Rightarrow> coeff_poly"
  inverse_ntt_negacyclic_harvey_lazy :: "coeff_poly \<Rightarrow> coeff_poly"

text \<open>
  The RNS tool (seal/util/rns.h) with the members the evaluator calls. Each conversion
  maps the polynomial it reads to the polynomial it writes.
\<close>

record rns_tool =
  base_Bsk :: "nat list"
  base_Bsk_m_tilde :: "nat list"
  base_Bsk_small_ntt_tables :: "small_ntt_tables list"
  fastbconv_m_tilde :: "rns_poly \<Rightarrow> rns_poly"
  sm_mrq :: "rns_poly \<Rightarrow> rns_poly"
  fast_floor :: "rns_poly \<Rightarrow> rns_poly"
  fastbconv_sk :: "rns_poly \<Rightarrow> rns_poly"
  divide_and_round_q_last_inplace :: "rns_poly \<Rightarrow> rns_poly"
  divide_and_round_q_last_ntt_inplace :: "rns_poly \<Rightarrow> small_ntt_tables list \<Rightarrow> rns_poly"
  inv_q_last_mod_q :: "nat list"

text \<open>The Galois tool (seal/util/galois.h): operand, Galois element and, without NTT, the modulus.\<close>

record galois_tool =
  apply_galois :: "coeff_poly \<Rightarrow> nat \<Rightarrow> nat \<Rightarrow> coeff_poly"
  apply_galois_ntt :: "coeff_poly \<Rightarrow> nat \<Rightarrow> coeff_poly"
  get_elt_from_step :: "int \<Rightarrow> nat"

record context_qualifiers =
  using_batching :: bool

datatype context_data = ContextData
  (parms: encryption_parameters)
  (parms_id: parms_id_type)
  (total_coeff_modulus_bit_count: int)
  (chain_index: nat)
  (qualifiers: context_qualifiers)
  (small_ntt_tables: "small_ntt_tables list")
  (rns_tool: rns_tool)
  (galois_tool: galois_tool)
  (next_context_data: "context_data option")

record sealcontext =
  context_data_map :: "parms_id_type \<rightharpoonup> context_data"
  key_parms_id :: parms_id_type
  first_parms_id :: parms_id_type
  last_parms_id :: parms_id_type
  using_keyswitching :: bool

definition get_context_data :: "sealcontext \<Rightarrow> parms_id_type \<Rightarrow> context_data option" where
  "get_context_data context pid = context_data_map context pid"

definition first_context_data :: "sealcontext \<Rightarrow> context_data option" where
  "first_context_data context = get_context_data context (first_parms_id context)"

definition key_context_data :: "sealcontext \<Rightarrow> context_data option" where
  "key_context_data context = get_context_data context (key_parms_id context)"

subsection \<open>Ciphertexts, plaintexts and keys\<close>

text \<open>
  The scale is a C++ \<^verbatim>\<open>double\<close>. Its type is the parameter \<open>'d\<close> and the floating-point
  operations the evaluator applies to it are fields of the evaluator below, so nothing is
  assumed about rounding.
\<close>

record 'd ciphertext =
  ct_parms_id :: parms_id_type
  ct_is_ntt_form :: bool
  ct_size :: nat
  ct_scale :: 'd
  ct_data :: "rns_poly list"

record 'd plaintext =
  pt_parms_id :: parms_id_type
  pt_scale :: 'd
  pt_data :: "nat list"

text \<open>
  Modelled from the spec: the members of \<^verbatim>\<open>Plaintext\<close> (seal/plaintext.h, not part of the
  sources at hand). Section 3: the \<open>parms_id\<close> is the zero sentinel exactly when the
  plaintext is not in NTT form; the coefficient count is the length of the buffer.
\<close>

definition pt_is_ntt_form :: "'d plaintext \<Rightarrow> bool" where
  "pt_is_ntt_form plain = (pt_parms_id plain \<noteq> parms_id_zero)"

definition pt_coeff_count :: "'d plaintext \<Rightarrow> nat" where
  "pt_coeff_count plain = length (pt_data plain)"

text \<open>
  \<^verbatim>\<open>KSwitchKeys\<close> with the members the evaluator reads: \<open>ks_data\<close> is the vector of key
  entries, each a vector of public keys (ciphertexts at the key parameter point);
  \<open>ks_size\<close> is what \<^verbatim>\<open>size()\<close> answers and \<open>has_key\<close> is the lookup of \<^verbatim>\<open>GaloisKeys\<close>.
\<close>

record 'd kswitch_keys =
  ks_parms_id :: parms_id_type
  ks_data :: "'d ciphertext list list"
  ks_size :: nat
  has_key :: "nat \<Rightarrow> bool"

text \<open>
  The evaluator: its context, the build switch
  \<^verbatim>\<open>SEAL_THROW_ON_TRANSPARENT_CIPHERTEXT\<close>, the operations on \<^verbatim>\<open>double\<close>
  (\<open>dbl_log2_int x\<close> is \<^verbatim>\<open>static_cast<int>(log2(x))\<close>, \<open>dbl_le_zero x\<close> is \<^verbatim>\<open>x <= 0\<close>,
  \<open>are_close\<close> is \<^verbatim>\<open>util::are_close<double>\<close>), the static index functions of the key
  classes, the non-adjacent form \<^verbatim>\<open>util::naf\<close> and the macro
  \<^verbatim>\<open>SEAL_USER_MOD_BIT_COUNT_MAX\<close>, whose headers are not part of the sources at hand.
\<close>

record 'd evaluator =
  context_of :: sealcontext
  throw_on_transparent :: bool
  dbl_mul :: "'d \<Rightarrow> 'd \<Rightarrow> 'd"
  dbl_div :: "'d \<Rightarrow> 'd \<Rightarrow> 'd"
  dbl_of_uint64 :: "nat \<Rightarrow> 'd"
  dbl_le_zero :: "'d \<Rightarrow> bool"
  dbl_log2_int :: "'d \<Rightarrow> int"
  are_close :: "'d \<Rightarrow> 'd \<Rightarrow> bool"
  RelinKeys_get_index :: "nat \<Rightarrow> nat"
  GaloisKeys_get_index :: "nat \<Rightarrow> nat"
  naf :: "int \<Rightarrow> int list"
  SEAL_USER_MOD_BIT_COUNT_MAX :: nat

definition are_same_scale :: "'d evaluator \<Rightarrow> 'd \<Rightarrow> 'd \<Rightarrow> bool" where
  "are_same_scale ev scale1 scale2 = are_close ev scale1 scale2"

text \<open>
  Modelled from the spec: \<^verbatim>\<open>is_metadata_valid_for\<close> and \<open>is_buffer_valid\<close> are defined in
  seal/valcheck.h, not part of the sources at hand. Section 4.1 of the spec: the metadata
  of the operand matches the context (its \<open>parms_id\<close> names a parameter point, its size is
  at least 2, section 3) and the buffer has the RNS shape of that parameter point: one
  polynomial per unit of size, one component per prime, \<open>N\<close> coefficients each.
\<close>

definition is_metadata_valid_for :: "'d ciphertext \<Rightarrow> sealcontext \<Rightarrow> bool" where
  "is_metadata_valid_for encrypted context =
     (case get_context_data context (ct_parms_id encrypted) of
        None \<Rightarrow> False
      | Some context_data \<Rightarrow> 2 \<le> ct_size encrypted)"

definition is_buffer_valid :: "'d ciphertext \<Rightarrow> sealcontext \<Rightarrow> bool" where
  "is_buffer_valid encrypted context =
     (case get_context_data context (ct_parms_id encrypted) of
        None \<Rightarrow> False
      | Some context_data \<Rightarrow>
          length (ct_data encrypted) = ct_size encrypted \<and>
          list_all (\<lambda>poly.
              length poly = length (coeff_modulus (parms context_data)) \<and>
              list_all (\<lambda>component. length component = poly_modulus_degree (parms context_data)) poly)
            (ct_data encrypted))"

text \<open>
  Modelled from the spec: the validity of a plaintext (seal/valcheck.h). A plaintext
  that is not in NTT form carries the \<open>parms_id\<close> zero and at most \<open>N\<close> coefficients of the
  first parameter point; one in NTT form names a parameter point and has its \<open>k * N\<close>
  coefficients (section 3).
\<close>

definition is_metadata_valid_for_plain :: "'d plaintext \<Rightarrow> sealcontext \<Rightarrow> bool" where
  "is_metadata_valid_for_plain plain context =
     (if pt_is_ntt_form plain then
        (case get_context_data context (pt_parms_id plain) of
           None \<Rightarrow> False
         | Some context_data \<Rightarrow>
             pt_coeff_count plain =
               length (coeff_modulus (parms context_data)) * poly_modulus_degree (parms context_data))
      else
        (case first_context_data context of
           None \<Rightarrow> False
         | Some context_data \<Rightarrow> pt_coeff_count plain \<le> poly_modulus_degree (parms context_data)))"

text \<open>
  Modelled from the spec: \<^verbatim>\<open>Ciphertext::resize\<close> and \<open>is_transparent\<close> belong to
  seal/ciphertext.h, not part of the sources at hand. A ciphertext is a dynamic array of
  polynomials (section 3): resizing keeps the leading polynomials, zero-fills new ones
  and records the parameter point; a ciphertext is transparent when \<open>c_1\<close> and all higher
  polynomials are zero.
\<close>

definition resize :: "'d ciphertext \<Rightarrow> context_data \<Rightarrow> nat \<Rightarrow> 'd ciphertext" where
  "resize encrypted context_data new_size =
     encrypted\<lparr>
       ct_parms_id := parms_id context_data,
       ct_size := new_size,
       ct_data := take new_size (ct_data encrypted) @
         replicate (new_size - length (ct_data encrypted))
           (zero_poly (poly_modulus_degree (parms context_data)) (length (coeff_modulus (parms context_data))))\<rparr>"

definition is_transparent :: "'d ciphertext \<Rightarrow> bool" where
  "is_transparent encrypted =
     list_all (list_all (list_all (\<lambda>x. x = 0))) (drop 1 (ct_data encrypted))"

text \<open>The closing block of the public operations, compiled in by the build switch.\<close>

definition transparent_guard :: "'d evaluator \<Rightarrow> 'd ciphertext \<Rightarrow> 'd ciphertext outcome" where
  "transparent_guard ev encrypted =
     (if throw_on_transparent ev \<and> is_transparent encrypted
      then Thrown (logic_error ''result ciphertext is transparent'') encrypted
      else Returned encrypted)"

text \<open>
  \<^verbatim>\<open>for_each_n(PolyIterator(c), n, f)\<close>: \<open>f\<close> rewrites each of the first \<open>n\<close> polynomials
  in place; here \<open>f i\<close> is the new polynomial at index \<open>i\<close>. The same over the RNS
  components of one polynomial.
\<close>

definition for_each_poly :: "nat \<Rightarrow> (nat \<Rightarrow> rns_poly) \<Rightarrow> rns_poly list \<Rightarrow> rns_poly list" where
  "for_each_poly n f polys = map f [0..<n] @ drop n polys"

definition for_each_component :: "nat \<Rightarrow> (nat \<Rightarrow> coeff_poly) \<Rightarrow> rns_poly" where
  "for_each_component n f = map f [0..<n]"

subsection \<open>Subtraction\<close>

definition sub_inplace :: "'d evaluator \<Rightarrow> 'd ciphertext \<Rightarrow> 'd ciphertext \<Rightarrow> 'd ciphertext outcome" where
  "sub_inplace ev encrypted1 encrypted2 =
     (if \<not> is_metadata_valid_for encrypted1 (context_of ev) \<or> \<not> is_buffer_valid encrypted1 (context_of ev)
      then Thrown (invalid_argument ''encrypted1 is not valid for encryption parameters'') encrypted1
      else if \<not> is_metadata_valid_for encrypted2 (context_of ev) \<or> \<not> is_buffer_valid encrypted2 (context_of ev)
      then Thrown (invalid_argument ''encrypted2 is not valid for encryption parameters'') encrypted1
      else if ct_parms_id encrypted1 \<noteq> ct_parms_id encrypted2
      then Thrown (invalid_argument ''encrypted1 and encrypted2 parameter mismatch'') encrypted1
      else if ct_is_ntt_form encrypted1 \<noteq> ct_is_ntt_form encrypted2
      then Thrown (invalid_argument ''NTT form mismatch'') encrypted1
      else if \<not> are_same_scale ev (ct_scale encrypted1) (ct_scale encrypted2)
      then Thrown (invalid_argument ''scale mismatch'') encrypted1
      else deref (get_context_data (context_of ev) (ct_parms_id encrypted1)) encrypted1 (\<lambda>context_data.
        let coeff_modulus = coeff_modulus (parms context_data);
            coeff_count = poly_modulus_degree (parms context_data);
            coeff_modulus_count = length coeff_modulus;
            encrypted1_size = ct_size encrypted1;
            encrypted2_size = ct_size encrypted2;
            max_count = max encrypted1_size encrypted2_size;
            min_count = min encrypted1_size encrypted2_size
        in if \<not> product_fits_in [max_count, coeff_count]
           then Thrown (logic_error ''invalid parameters'') encrypted1
           else
             let resized = resize encrypted1 context_data max_count;
                 subtracted = for_each_poly min_count (\<lambda>i.
                     for_each_component coeff_modulus_count (\<lambda>j.
                       sub_poly_poly_coeffmod (ct_data resized ! i ! j) (ct_data encrypted2 ! i ! j)
                         coeff_count (coeff_modulus ! j)))
                   (ct_data resized);
                 negated =
                   (if encrypted1_size < encrypted2_size
                    then take min_count subtracted @
                      map (\<lambda>i. for_each_component coeff_modulus_count (\<lambda>j.
                             negate_poly_coeffmod (ct_data encrypted2 ! i ! j) coeff_count (coeff_modulus ! j)))
                        [min_count..<min_count + (encrypted2_size - min_count)] @
                      drop (min_count + (encrypted2_size - min_count)) subtracted
                    else subtracted)
             in transparent_guard ev (resized\<lparr>ct_data := negated\<rparr>)))"

subsection \<open>Multiplication\<close>

text \<open>
  \<^verbatim>\<open>sub_safe(add_safe(encrypted1_size, encrypted2_size), size_t(1))\<close>, the size of a product.
\<close>

definition multiply_dest_size :: "nat \<Rightarrow> nat \<Rightarrow> error + nat" where
  "multiply_dest_size encrypted1_size encrypted2_size =
     (case add_safe encrypted1_size encrypted2_size of
        Inl e \<Rightarrow> Inl e
      | Inr added \<Rightarrow> sub_safe added 1)"

text \<open>
  The lambda \<^verbatim>\<open>behz_extend_base_convert_to_ntt\<close> of \<open>bfv_multiply\<close> and \<open>bfv_square\<close>
  (BEHZ steps 1 to 3): from one input polynomial in base q, its copy in NTT form in
  base q and its lift to base Bsk in NTT form.
\<close>

definition behz_extend_base_convert_to_ntt :: "context_data \<Rightarrow> rns_poly \<Rightarrow> rns_poly \<times> rns_poly" where
  "behz_extend_base_convert_to_ntt context_data input =
     (let coeff_count = poly_modulus_degree (parms context_data);
          base_q_size = length (coeff_modulus (parms context_data));
          base_Bsk_size = length (base_Bsk (rns_tool context_data));
          output_q = for_each_component base_q_size (\<lambda>j.
            ntt_negacyclic_harvey_lazy (small_ntt_tables context_data ! j)
              (set_uint_uint (input ! j) coeff_count));
          temp = fastbconv_m_tilde (rns_tool context_data) input;
          reduced = sm_mrq (rns_tool context_data) temp;
          output_Bsk = for_each_component base_Bsk_size (\<lambda>j.
            ntt_negacyclic_harvey_lazy (base_Bsk_small_ntt_tables (rns_tool context_data) ! j)
              (reduced ! j))
      in (output_q, output_Bsk))"

text \<open>
  The lambda \<^verbatim>\<open>behz_ciphertext_product\<close> (BEHZ step 4) for the output polynomial at
  \<open>secret_power_index\<close>: the first input runs upwards from \<open>curr_encrypted1_first\<close>,
  the second downwards from \<open>curr_encrypted2_first\<close>, and each dyadic product is added
  into the output polynomial \<open>out\<close>, which starts zeroed.
\<close>

definition behz_ciphertext_product ::
  "nat \<Rightarrow> nat \<Rightarrow> nat \<Rightarrow> nat \<Rightarrow> rns_poly list \<Rightarrow> rns_poly list \<Rightarrow> nat list \<Rightarrow> nat \<Rightarrow> rns_poly \<Rightarrow> rns_poly" where
  "behz_ciphertext_product coeff_count curr_encrypted1_first curr_encrypted2_first steps
       in1 in2 base base_size out =
     fold (\<lambda>n acc. for_each_component base_size (\<lambda>j.
             let temp = dyadic_product_coeffmod (in1 ! (curr_encrypted1_first + n) ! j)
                          (in2 ! (curr_encrypted2_first - n) ! j) coeff_count (base ! j)
             in add_poly_poly_coeffmod temp (acc ! j) coeff_count (base ! j)))
       [0..<steps] out"

text \<open>The loop over \<open>secret_power_index\<close> around it, for one base.\<close>

definition behz_dyadic_multiplication ::
  "nat \<Rightarrow> nat \<Rightarrow> nat \<Rightarrow> nat \<Rightarrow> rns_poly list \<Rightarrow> rns_poly list \<Rightarrow> nat list \<Rightarrow> nat \<Rightarrow> rns_poly list" where
  "behz_dyadic_multiplication coeff_count encrypted1_size encrypted2_size dest_size in1 in2 base base_size =
     map (\<lambda>secret_power_index.
        let curr_encrypted1_last = min secret_power_index (encrypted1_size - 1);
            curr_encrypted2_first = min secret_power_index (encrypted2_size - 1);
            curr_encrypted1_first = secret_power_index - curr_encrypted2_first;
            steps = curr_encrypted1_last - curr_encrypted1_first + 1
        in behz_ciphertext_product coeff_count curr_encrypted1_first curr_encrypted2_first steps
             in1 in2 base base_size (zero_poly coeff_count base_size))
       [0..<dest_size]"

text \<open>BEHZ step 5 for one output polynomial, and steps 6 to 8.\<close>

definition behz_transform_from_ntt :: "small_ntt_tables list \<Rightarrow> nat \<Rightarrow> rns_poly \<Rightarrow> rns_poly" where
  "behz_transform_from_ntt tables base_size poly =
     for_each_component base_size (\<lambda>j. inverse_ntt_negacyclic_harvey (tables ! j) (poly ! j))"

definition behz_scale_floor_convert :: "context_data \<Rightarrow> rns_poly \<Rightarrow> rns_poly \<Rightarrow> rns_poly" where
  "behz_scale_floor_convert context_data temp_dest_q temp_dest_Bsk =
     (let coeff_count = poly_modulus_degree (parms context_data);
          base_q = coeff_modulus (parms context_data);
          base_Bsk = base_Bsk (rns_tool context_data);
          plain_modulus = plain_modulus (parms context_data);
          temp_q_Bsk =
            for_each_component (length base_q) (\<lambda>j.
              multiply_poly_scalar_coeffmod (temp_dest_q ! j) coeff_count plain_modulus (base_q ! j)) @
            for_each_component (length base_Bsk) (\<lambda>j.
              multiply_poly_scalar_coeffmod (temp_dest_Bsk ! j) coeff_count plain_modulus (base_Bsk ! j));
          temp_Bsk = fast_floor (rns_tool context_data) temp_q_Bsk
      in fastbconv_sk (rns_tool context_data) temp_Bsk)"

text \<open>
  \<open>bfv_multiply\<close>. Both operands are read into scratch (steps 1 to 3) before the first
  write to \<open>encrypted1\<close>, and the resize keeps the polynomials already there; so when the
  caller passes one object for both operands, as \<open>bfv_square\<close> does, the second operand
  read after the resize is still the value it had on entry.
\<close>

definition bfv_multiply :: "'d evaluator \<Rightarrow> 'd ciphertext \<Rightarrow> 'd ciphertext \<Rightarrow> 'd ciphertext outcome" where
  "bfv_multiply ev encrypted1 encrypted2 =
     (if ct_is_ntt_form encrypted1 \<or> ct_is_ntt_form encrypted2
      then Thrown (invalid_argument ''encrypted1 or encrypted2 cannot be in NTT form'') encrypted1
      else deref (get_context_data (context_of ev) (ct_parms_id encrypted1)) encrypted1 (\<lambda>context_data.
        let coeff_count = poly_modulus_degree (parms context_data);
            base_q = coeff_modulus (parms context_data);
            base_q_size = length base_q;
            encrypted1_size = ct_size encrypted1;
            encrypted2_size = ct_size encrypted2;
            base_Bsk = base_Bsk (rns_tool context_data);
            base_Bsk_size = length base_Bsk;
            base_Bsk_m_tilde_size = length (base_Bsk_m_tilde (rns_tool context_data))
        in case multiply_dest_size encrypted1_size encrypted2_size of
             Inl e \<Rightarrow> Thrown e encrypted1
           | Inr dest_size \<Rightarrow>
               if \<not> product_fits_in [dest_size, coeff_count, base_Bsk_m_tilde_size]
               then Thrown (logic_error ''invalid parameters'') encrypted1
               else
                 let resized = resize encrypted1 context_data dest_size;
                     extended1 = map (\<lambda>i. behz_extend_base_convert_to_ntt context_data (ct_data resized ! i))
                                   [0..<encrypted1_size];
                     extended2 = map (\<lambda>i. behz_extend_base_convert_to_ntt context_data (ct_data encrypted2 ! i))
                                   [0..<encrypted2_size];
                     temp_dest_q = behz_dyadic_multiplication coeff_count encrypted1_size encrypted2_size
                                     dest_size (map fst extended1) (map fst extended2) base_q base_q_size;
                     temp_dest_Bsk = behz_dyadic_multiplication coeff_count encrypted1_size encrypted2_size
                                       dest_size (map snd extended1) (map snd extended2) base_Bsk base_Bsk_size
                 in Returned (resized\<lparr>ct_data :=
                      for_each_poly dest_size (\<lambda>i.
                        behz_scale_floor_convert context_data
                          (behz_transform_from_ntt (small_ntt_tables context_data) base_q_size (temp_dest_q ! i))
                          (behz_transform_from_ntt (base_Bsk_small_ntt_tables (rns_tool context_data))
                             base_Bsk_size (temp_dest_Bsk ! i)))
                        (ct_data resized)\<rparr>)))"

definition ckks_multiply :: "'d evaluator \<Rightarrow> 'd ciphertext \<Rightarrow> 'd ciphertext \<Rightarrow> 'd ciphertext outcome" where
  "ckks_multiply ev encrypted1 encrypted2 =
     (if \<not> (ct_is_ntt_form encrypted1 \<and> ct_is_ntt_form encrypted2)
      then Thrown (invalid_argument ''encrypted1 or encrypted2 must be in NTT form'') encrypted1
      else deref (get_context_data (context_of ev) (ct_parms_id encrypted1)) encrypted1 (\<lambda>context_data.
        let coeff_modulus = coeff_modulus (parms context_data);
            coeff_count = poly_modulus_degree (parms context_data);
            coeff_modulus_count = length coeff_modulus;
            encrypted1_size = ct_size encrypted1;
            encrypted2_size = ct_size encrypted2;
            new_scale = dbl_mul ev (ct_scale encrypted1) (ct_scale encrypted2)
        in if dbl_le_zero ev new_scale \<or>
              dbl_log2_int ev new_scale \<ge> total_coeff_modulus_bit_count context_data
           then Thrown (invalid_argument ''scale out of bounds'') encrypted1
           else case multiply_dest_size encrypted1_size encrypted2_size of
             Inl e \<Rightarrow> Thrown e encrypted1
           | Inr dest_size \<Rightarrow>
               if \<not> product_fits_in [dest_size, coeff_count, coeff_modulus_count]
               then Thrown (logic_error ''invalid parameters'') encrypted1
               else
                 let resized = resize encrypted1 context_data dest_size;
                     temp = map (\<lambda>secret_power_index.
                         let curr_encrypted1_last = min secret_power_index (encrypted1_size - 1);
                             curr_encrypted2_first = min secret_power_index (encrypted2_size - 1);
                             curr_encrypted1_first = secret_power_index - curr_encrypted2_first;
                             steps = curr_encrypted1_last - curr_encrypted1_first + 1
                         in fold (\<lambda>n acc. for_each_component coeff_modulus_count (\<lambda>j.
                                let product = dyadic_product_coeffmod
                                      (ct_data resized ! (curr_encrypted1_first + n) ! j)
                                      (ct_data encrypted2 ! (curr_encrypted2_first - n) ! j)
                                      coeff_count (coeff_modulus ! j)
                                in add_poly_poly_coeffmod product (acc ! j) coeff_count (coeff_modulus ! j)))
                              [0..<steps] (zero_poly coeff_count coeff_modulus_count))
                       [0..<dest_size]
                 in Returned (resized\<lparr>ct_data := temp, ct_scale := new_scale\<rparr>)))"

definition multiply_inplace :: "'d evaluator \<Rightarrow> 'd ciphertext \<Rightarrow> 'd ciphertext \<Rightarrow> 'd ciphertext outcome" where
  "multiply_inplace ev encrypted1 encrypted2 =
     (if \<not> is_metadata_valid_for encrypted1 (context_of ev) \<or> \<not> is_buffer_valid encrypted1 (context_of ev)
      then Thrown (invalid_argument ''encrypted1 is not valid for encryption parameters'') encrypted1
      else if \<not> is_metadata_valid_for encrypted2 (context_of ev) \<or> \<not> is_buffer_valid encrypted2 (context_of ev)
      then Thrown (invalid_argument ''encrypted2 is not valid for encryption parameters'') encrypted1
      else if ct_parms_id encrypted1 \<noteq> ct_parms_id encrypted2
      then Thrown (invalid_argument ''encrypted1 and encrypted2 parameter mismatch'') encrypted1
      else deref (first_context_data (context_of ev)) encrypted1 (\<lambda>context_data_ptr.
        case scheme (parms context_data_ptr) of
          BFV \<Rightarrow> and_then (bfv_multiply ev encrypted1 encrypted2) (transparent_guard ev)
        | CKKS \<Rightarrow> and_then (ckks_multiply ev encrypted1 encrypted2) (transparent_guard ev)
        | other_scheme \<Rightarrow> Thrown (invalid_argument ''unsupported scheme'') encrypted1))"

subsection \<open>Squaring\<close>

text \<open>
  The lambda \<^verbatim>\<open>behz_ciphertext_square\<close>: the three output polynomials of a size-2
  square, each written directly (no accumulation into the zeroed output).
\<close>

definition behz_ciphertext_square :: "nat \<Rightarrow> rns_poly list \<Rightarrow> nat list \<Rightarrow> nat \<Rightarrow> rns_poly list" where
  "behz_ciphertext_square coeff_count input base base_size =
     [for_each_component base_size (\<lambda>j.
        dyadic_product_coeffmod (input ! 0 ! j) (input ! 0 ! j) coeff_count (base ! j)),
      for_each_component base_size (\<lambda>j.
        let product = dyadic_product_coeffmod (input ! 1 ! j) (input ! 0 ! j) coeff_count (base ! j)
        in add_poly_poly_coeffmod product product coeff_count (base ! j)),
      for_each_component base_size (\<lambda>j.
        dyadic_product_coeffmod (input ! 1 ! j) (input ! 1 ! j) coeff_count (base ! j))]"

definition bfv_square :: "'d evaluator \<Rightarrow> 'd ciphertext \<Rightarrow> 'd ciphertext outcome" where
  "bfv_square ev encrypted =
     (if ct_is_ntt_form encrypted
      then Thrown (invalid_argument ''encrypted cannot be in NTT form'') encrypted
      else deref (get_context_data (context_of ev) (ct_parms_id encrypted)) encrypted (\<lambda>context_data.
        let coeff_count = poly_modulus_degree (parms context_data);
            base_q = coeff_modulus (parms context_data);
            base_q_size = length base_q;
            encrypted_size = ct_size encrypted;
            base_Bsk = base_Bsk (rns_tool context_data);
            base_Bsk_size = length base_Bsk;
            base_Bsk_m_tilde_size = length (base_Bsk_m_tilde (rns_tool context_data))
        in if encrypted_size \<noteq> 2
           then bfv_multiply ev encrypted encrypted
           else case multiply_dest_size encrypted_size encrypted_size of
             Inl e \<Rightarrow> Thrown e encrypted
           | Inr dest_size \<Rightarrow>
               if \<not> product_fits_in [dest_size, coeff_count, base_Bsk_m_tilde_size]
               then Thrown (logic_error ''invalid parameters'') encrypted
               else
                 let resized = resize encrypted context_data dest_size;
                     extended = map (\<lambda>i. behz_extend_base_convert_to_ntt context_data (ct_data resized ! i))
                                  [0..<encrypted_size];
                     temp_dest_q = behz_ciphertext_square coeff_count (map fst extended) base_q base_q_size;
                     temp_dest_Bsk = behz_ciphertext_square coeff_count (map snd extended) base_Bsk base_Bsk_size
                 in Returned (resized\<lparr>ct_data :=
                      for_each_poly dest_size (\<lambda>i.
                        behz_scale_floor_convert context_data
                          (behz_transform_from_ntt (small_ntt_tables context_data) base_q_size (temp_dest_q ! i))
                          (behz_transform_from_ntt (base_Bsk_small_ntt_tables (rns_tool context_data))
                             base_Bsk_size (temp_dest_Bsk ! i)))
                        (ct_data resized)\<rparr>)))"

text \<open>
  \<open>ckks_square\<close> computes the same three polynomials inline, on the ciphertext itself
  and the coefficient modulus.
\<close>

definition ckks_square :: "'d evaluator \<Rightarrow> 'd ciphertext \<Rightarrow> 'd ciphertext outcome" where
  "ckks_square ev encrypted =
     (if \<not> ct_is_ntt_form encrypted
      then Thrown (invalid_argument ''encrypted must be in NTT form'') encrypted
      else deref (get_context_data (context_of ev) (ct_parms_id encrypted)) encrypted (\<lambda>context_data.
        let coeff_modulus = coeff_modulus (parms context_data);
            coeff_count = poly_modulus_degree (parms context_data);
            coeff_modulus_count = length coeff_modulus;
            encrypted_size = ct_size encrypted
        in if encrypted_size \<noteq> 2
           then ckks_multiply ev encrypted encrypted
           else
             let new_scale = dbl_mul ev (ct_scale encrypted) (ct_scale encrypted)
             in if dbl_le_zero ev new_scale \<or>
                   dbl_log2_int ev new_scale \<ge> total_coeff_modulus_bit_count context_data
                then Thrown (invalid_argument ''scale out of bounds'') encrypted
                else case multiply_dest_size encrypted_size encrypted_size of
                  Inl e \<Rightarrow> Thrown e encrypted
                | Inr dest_size \<Rightarrow>
                    if \<not> product_fits_in [dest_size, coeff_count, coeff_modulus_count]
                    then Thrown (logic_error ''invalid parameters'') encrypted
                    else
                      let resized = resize encrypted context_data dest_size;
                          temp = behz_ciphertext_square coeff_count (ct_data resized)
                                   coeff_modulus coeff_modulus_count
                      in Returned (resized\<lparr>ct_data := temp, ct_scale := new_scale\<rparr>)))"

definition square_inplace :: "'d evaluator \<Rightarrow> 'd ciphertext \<Rightarrow> 'd ciphertext outcome" where
  "square_inplace ev encrypted =
     (if \<not> is_metadata_valid_for encrypted (context_of ev) \<or> \<not> is_buffer_valid encrypted (context_of ev)
      then Thrown (invalid_argument ''encrypted is not valid for encryption parameters'') encrypted
      else deref (first_context_data (context_of ev)) encrypted (\<lambda>context_data_ptr.
        case scheme (parms context_data_ptr) of
          BFV \<Rightarrow> and_then (bfv_square ev encrypted) (transparent_guard ev)
        | CKKS \<Rightarrow> and_then (ckks_square ev encrypted) (transparent_guard ev)
        | other_scheme \<Rightarrow> Thrown (invalid_argument ''unsupported scheme'') encrypted))"

subsection \<open>Modulus switching with scaling, rescaling\<close>

text \<open>
  A \<^verbatim>\<open>MemoryPoolHandle\<close> is used by the evaluator only through its conversion to
  \<^verbatim>\<open>bool\<close>: true when the handle holds a pool.
\<close>

type_synonym memory_pool_handle = bool

text \<open>
  Modelled from the spec: \<^verbatim>\<open>set_poly_poly\<close> (seal/util/polycore.h, not part of the sources
  at hand) copies a polynomial of \<open>coeff_modulus_count\<close> components of \<open>coeff_count\<close> words
  (section 4.8: "write the first k - 1 RNS components into the destination").
\<close>

definition set_poly_poly :: "rns_poly \<Rightarrow> nat \<Rightarrow> nat \<Rightarrow> rns_poly" where
  "set_poly_poly poly coeff_count coeff_modulus_count =
     map (\<lambda>component. set_uint_uint component coeff_count) (take coeff_modulus_count poly)"

text \<open>
  The outcome is that of \<open>destination\<close>. The source works on a local copy of \<open>encrypted\<close>,
  so the call is the same when the caller passes one object for both.
\<close>

definition mod_switch_scale_to_next ::
  "'d evaluator \<Rightarrow> 'd ciphertext \<Rightarrow> 'd ciphertext \<Rightarrow> memory_pool_handle \<Rightarrow> 'd ciphertext outcome" where
  "mod_switch_scale_to_next ev encrypted destination pool =
     deref (get_context_data (context_of ev) (ct_parms_id encrypted)) destination (\<lambda>context_data.
       if scheme (parms context_data) = BFV \<and> ct_is_ntt_form encrypted
       then Thrown (invalid_argument ''BFV encrypted cannot be in NTT form'') destination
       else if scheme (parms context_data) = CKKS \<and> \<not> ct_is_ntt_form encrypted
       then Thrown (invalid_argument ''CKKS encrypted must be in NTT form'') destination
       else if \<not> pool
       then Thrown (invalid_argument ''pool is uninitialized'') destination
       else deref (next_context_data context_data) destination (\<lambda>next_context_data.
         let next_parms = parms next_context_data;
             encrypted_size = ct_size encrypted;
             coeff_count = poly_modulus_degree next_parms;
             next_coeff_modulus_count = length (coeff_modulus next_parms)
         in case
              (case scheme next_parms of
                 BFV \<Rightarrow> Inr (for_each_poly encrypted_size (\<lambda>i.
                     divide_and_round_q_last_inplace (rns_tool context_data) (ct_data encrypted ! i))
                   (ct_data encrypted))
               | CKKS \<Rightarrow> Inr (for_each_poly encrypted_size (\<lambda>i.
                     divide_and_round_q_last_ntt_inplace (rns_tool context_data) (ct_data encrypted ! i)
                       (small_ntt_tables context_data))
                   (ct_data encrypted))
               | other_scheme \<Rightarrow> Inl (invalid_argument ''unsupported scheme''))
            of
              Inl e \<Rightarrow> Thrown e destination
            | Inr encrypted_copy \<Rightarrow>
                let resized = resize destination next_context_data encrypted_size;
                    copied = resized\<lparr>
                      ct_data := for_each_poly encrypted_size (\<lambda>i.
                          set_poly_poly (encrypted_copy ! i) coeff_count next_coeff_modulus_count)
                        (ct_data resized),
                      ct_is_ntt_form := ct_is_ntt_form encrypted\<rparr>
                in if scheme next_parms = CKKS
                   then (case coeff_modulus (parms context_data) of
                           [] \<Rightarrow> Thrown (undefined_behaviour ''back() of an empty vector'') copied
                         | q # qs \<Rightarrow> Returned (copied\<lparr>ct_scale :=
                             dbl_div ev (ct_scale encrypted) (dbl_of_uint64 ev (last (q # qs)))\<rparr>))
                   else Returned copied))"

definition rescale_to_next ::
  "'d evaluator \<Rightarrow> 'd ciphertext \<Rightarrow> 'd ciphertext \<Rightarrow> memory_pool_handle \<Rightarrow> 'd ciphertext outcome" where
  "rescale_to_next ev encrypted destination pool =
     (if \<not> is_metadata_valid_for encrypted (context_of ev) \<or> \<not> is_buffer_valid encrypted (context_of ev)
      then Thrown (invalid_argument ''encrypted is not valid for encryption parameters'') destination
      else if last_parms_id (context_of ev) = ct_parms_id encrypted
      then Thrown (invalid_argument ''end of modulus switching chain reached'') destination
      else if \<not> pool
      then Thrown (invalid_argument ''pool is uninitialized'') destination
      else deref (first_context_data (context_of ev)) destination (\<lambda>first_context_data.
        case scheme (parms first_context_data) of
          BFV \<Rightarrow> Thrown (invalid_argument ''unsupported operation for scheme type'') destination
        | CKKS \<Rightarrow> and_then (mod_switch_scale_to_next ev encrypted destination pool) (transparent_guard ev)
        | other_scheme \<Rightarrow> Thrown (invalid_argument ''unsupported scheme'') destination))"

subsection \<open>Adding and subtracting a plaintext\<close>

text \<open>
  Modelled from the spec: \<^verbatim>\<open>multiply_add_plain_with_scaling_variant\<close> and
  \<open>multiply_sub_plain_with_scaling_variant\<close> are defined in seal/util/scalingvariant.h, not
  part of the sources at hand. Section 4.2 of the spec: the plaintext coefficients are
  scaled by the floor of \<open>q / t\<close> and added to, or subtracted from, \<open>c_0\<close> and only \<open>c_0\<close>,
  modulo each prime. The functions receive the pointer \<^verbatim>\<open>encrypted.data()\<close>, where \<open>c_0\<close>
  starts; here they map the old \<open>c_0\<close> to the new one.
\<close>

definition coeff_div_plain_modulus :: "context_data \<Rightarrow> nat" where
  "coeff_div_plain_modulus context_data =
     prod_list (coeff_modulus (parms context_data)) div plain_modulus (parms context_data)"

definition multiply_add_plain_with_scaling_variant :: "'d plaintext \<Rightarrow> context_data \<Rightarrow> rns_poly \<Rightarrow> rns_poly" where
  "multiply_add_plain_with_scaling_variant plain context_data destination =
     for_each_component (length (coeff_modulus (parms context_data))) (\<lambda>j.
       map (\<lambda>l. if l < pt_coeff_count plain
                 then add_uint_uint_mod (destination ! j ! l)
                        ((coeff_div_plain_modulus context_data * (pt_data plain ! l))
                           mod (coeff_modulus (parms context_data) ! j))
                        (coeff_modulus (parms context_data) ! j)
                 else destination ! j ! l)
         [0..<poly_modulus_degree (parms context_data)])"

definition multiply_sub_plain_with_scaling_variant :: "'d plaintext \<Rightarrow> context_data \<Rightarrow> rns_poly \<Rightarrow> rns_poly" where
  "multiply_sub_plain_with_scaling_variant plain context_data destination =
     for_each_component (length (coeff_modulus (parms context_data))) (\<lambda>j.
       map (\<lambda>l. if l < pt_coeff_count plain
                 then sub_uint_uint_mod (destination ! j ! l)
                        ((coeff_div_plain_modulus context_data * (pt_data plain ! l))
                           mod (coeff_modulus (parms context_data) ! j))
                        (coeff_modulus (parms context_data) ! j)
                 else destination ! j ! l)
         [0..<poly_modulus_degree (parms context_data)])"

text \<open>
  \<^verbatim>\<open>ConstRNSIterator plain_iter(plain.data(), coeff_count)\<close>: component \<open>j\<close> of a plaintext
  in RNS form is the \<open>j\<close>-th run of \<open>coeff_count\<close> words of its buffer.
\<close>

definition is_buffer_valid_plain :: "'d plaintext \<Rightarrow> bool" where
  "is_buffer_valid_plain plain = (pt_coeff_count plain = length (pt_data plain))"

definition plain_component :: "'d plaintext \<Rightarrow> nat \<Rightarrow> nat \<Rightarrow> coeff_poly" where
  "plain_component plain coeff_count j = take coeff_count (drop (j * coeff_count) (pt_data plain))"

definition add_plain_inplace :: "'d evaluator \<Rightarrow> 'd ciphertext \<Rightarrow> 'd plaintext \<Rightarrow> 'd ciphertext outcome" where
  "add_plain_inplace ev encrypted plain =
     (if \<not> is_metadata_valid_for encrypted (context_of ev) \<or> \<not> is_buffer_valid encrypted (context_of ev)
      then Thrown (invalid_argument ''encrypted is not valid for encryption parameters'') encrypted
      else if \<not> is_metadata_valid_for_plain plain (context_of ev) \<or> \<not> is_buffer_valid_plain plain
      then Thrown (invalid_argument ''plain is not valid for encryption parameters'') encrypted
      else deref (get_context_data (context_of ev) (ct_parms_id encrypted)) encrypted (\<lambda>context_data.
        if scheme (parms context_data) = BFV \<and> ct_is_ntt_form encrypted
        then Thrown (invalid_argument ''BFV encrypted cannot be in NTT form'') encrypted
        else if scheme (parms context_data) = CKKS \<and> \<not> ct_is_ntt_form encrypted
        then Thrown (invalid_argument ''CKKS encrypted must be in NTT form'') encrypted
        else if pt_is_ntt_form plain \<noteq> ct_is_ntt_form encrypted
        then Thrown (invalid_argument ''NTT form mismatch'') encrypted
        else if ct_is_ntt_form encrypted \<and> ct_parms_id encrypted \<noteq> pt_parms_id plain
        then Thrown (invalid_argument ''encrypted and plain parameter mismatch'') encrypted
        else if \<not> are_same_scale ev (ct_scale encrypted) (pt_scale plain)
        then Thrown (invalid_argument ''scale mismatch'') encrypted
        else
          let coeff_modulus = coeff_modulus (parms context_data);
              coeff_count = poly_modulus_degree (parms context_data);
              coeff_modulus_count = length coeff_modulus
          in if \<not> product_fits_in [coeff_count, coeff_modulus_count]
             then Thrown (logic_error ''invalid parameters'') encrypted
             else case scheme (parms context_data) of
               BFV \<Rightarrow> transparent_guard ev (encrypted\<lparr>ct_data := (ct_data encrypted)
                   [0 := multiply_add_plain_with_scaling_variant plain context_data (ct_data encrypted ! 0)]\<rparr>)
             | CKKS \<Rightarrow> transparent_guard ev (encrypted\<lparr>ct_data := (ct_data encrypted)
                   [0 := for_each_component coeff_modulus_count (\<lambda>j.
                      add_poly_poly_coeffmod (ct_data encrypted ! 0 ! j)
                        (plain_component plain coeff_count j) coeff_count (coeff_modulus ! j))]\<rparr>)
             | other_scheme \<Rightarrow> Thrown (invalid_argument ''unsupported scheme'') encrypted))"

definition sub_plain_inplace :: "'d evaluator \<Rightarrow> 'd ciphertext \<Rightarrow> 'd plaintext \<Rightarrow> 'd ciphertext outcome" where
  "sub_plain_inplace ev encrypted plain =
     (if \<not> is_metadata_valid_for encrypted (context_of ev) \<or> \<not> is_buffer_valid encrypted (context_of ev)
      then Thrown (invalid_argument ''encrypted is not valid for encryption parameters'') encrypted
      else if \<not> is_metadata_valid_for_plain plain (context_of ev) \<or> \<not> is_buffer_valid_plain plain
      then Thrown (invalid_argument ''plain is not valid for encryption parameters'') encrypted
      else deref (get_context_data (context_of ev) (ct_parms_id encrypted)) encrypted (\<lambda>context_data.
        if scheme (parms context_data) = BFV \<and> ct_is_ntt_form encrypted
        then Thrown (invalid_argument ''BFV encrypted cannot be in NTT form'') encrypted
        else if scheme (parms context_data) = CKKS \<and> \<not> ct_is_ntt_form encrypted
        then Thrown (invalid_argument ''CKKS encrypted must be in NTT form'') encrypted
        else if pt_is_ntt_form plain \<noteq> ct_is_ntt_form encrypted
        then Thrown (invalid_argument ''NTT form mismatch'') encrypted
        else if ct_is_ntt_form encrypted \<and> ct_parms_id encrypted \<noteq> pt_parms_id plain
        then Thrown (invalid_argument ''encrypted and plain parameter mismatch'') encrypted
        else if \<not> are_same_scale ev (ct_scale encrypted) (pt_scale plain)
        then Thrown (invalid_argument ''scale mismatch'') encrypted
        else
          let coeff_modulus = coeff_modulus (parms context_data);
              coeff_count = poly_modulus_degree (parms context_data);
              coeff_modulus_count = length coeff_modulus
          in if \<not> product_fits_in [coeff_count, coeff_modulus_count]
             then Thrown (logic_error ''invalid parameters'') encrypted
             else case scheme (parms context_data) of
               BFV \<Rightarrow> transparent_guard ev (encrypted\<lparr>ct_data := (ct_data encrypted)
                   [0 := multiply_sub_plain_with_scaling_variant plain context_data (ct_data encrypted ! 0)]\<rparr>)
             | CKKS \<Rightarrow> transparent_guard ev (encrypted\<lparr>ct_data := (ct_data encrypted)
                   [0 := for_each_component coeff_modulus_count (\<lambda>j.
                      sub_poly_poly_coeffmod (ct_data encrypted ! 0 ! j)
                        (plain_component plain coeff_count j) coeff_count (coeff_modulus ! j))]\<rparr>)
             | other_scheme \<Rightarrow> Thrown (invalid_argument ''unsupported scheme'') encrypted))"

subsection \<open>Key switching\<close>

text \<open>
  Modelled from the spec: the word-level helpers of seal/util/uintarith.h and
  uintarithsmallmod.h are not part of the sources at hand. Section 4.10 of the spec: the
  products are accumulated in 128 bits and Barrett-reduced modulo the prime.
\<close>

definition multiply_uint64 :: "nat \<Rightarrow> nat \<Rightarrow> nat" where
  "multiply_uint64 operand1 operand2 = operand1 * operand2"

definition add_uint128 :: "nat \<Rightarrow> nat \<Rightarrow> nat" where
  "add_uint128 operand1 operand2 = (operand1 + operand2) mod 2 ^ 128"

definition barrett_reduce_128 :: "nat \<Rightarrow> nat \<Rightarrow> nat" where
  "barrett_reduce_128 input modulus = input mod modulus"

definition barrett_reduce_63 :: "nat \<Rightarrow> nat \<Rightarrow> nat" where
  "barrett_reduce_63 input modulus = input mod modulus"

definition modulo_poly_coeffs_63 :: "coeff_poly \<Rightarrow> nat \<Rightarrow> nat \<Rightarrow> coeff_poly" where
  "modulo_poly_coeffs_63 poly coeff_count modulus =
     map (\<lambda>l. barrett_reduce_63 (poly ! l) modulus) [0..<coeff_count]"

text \<open>
  \<^verbatim>\<open>1 << (128 - SEAL_USER_MOD_BIT_COUNT_MAX * 2)\<close>, the branch of the source compiled when the
  macro exceeds 32.
\<close>

definition lazy_reduction_summand_bound :: "'d evaluator \<Rightarrow> nat" where
  "lazy_reduction_summand_bound ev = 2 ^ (128 - SEAL_USER_MOD_BIT_COUNT_MAX ev * 2)"

text \<open>
  The loop over \<open>i\<close> for one \<open>j\<close>: the accumulators \<open>t_poly_lazy\<close>, one list of 128-bit
  sums per key component, with the counter as the loop leaves it.
\<close>

definition switch_key_accumulate ::
  "'d evaluator \<Rightarrow> scheme_type \<Rightarrow> nat \<Rightarrow> nat \<Rightarrow> nat \<Rightarrow> nat list \<Rightarrow> nat \<Rightarrow> small_ntt_tables list \<Rightarrow>
     rns_poly \<Rightarrow> rns_poly \<Rightarrow> 'd ciphertext list \<Rightarrow> nat \<Rightarrow> nat list list \<times> nat" where
  "switch_key_accumulate ev the_scheme coeff_count decomp_mod_count key_component_count key_modulus key_index
       ntt_tables t_target target key_vector j =
     fold (\<lambda>i (t_poly_lazy, lazy_reduction_counter).
         let t_operand =
               (if the_scheme = CKKS \<and> i = j then target ! i
                else ntt_negacyclic_harvey_lazy (ntt_tables ! key_index)
                       (if key_modulus ! i \<le> key_modulus ! key_index
                        then set_uint_uint (t_target ! i) coeff_count
                        else modulo_poly_coeffs_63 (t_target ! i) coeff_count (key_modulus ! key_index)));
             accumulated = map (\<lambda>k. map (\<lambda>l.
                   let wide_product = multiply_uint64 (t_operand ! l)
                                        (ct_data (key_vector ! i) ! k ! key_index ! l);
                       summed = add_uint128 wide_product (t_poly_lazy ! k ! l)
                   in if lazy_reduction_counter = 0
                      then barrett_reduce_128 summed (key_modulus ! key_index)
                      else summed)
                 [0..<coeff_count])
               [0..<key_component_count];
             decremented = (lazy_reduction_counter + 2 ^ 64 - 1) mod 2 ^ 64
         in (accumulated,
             if decremented = 0 then lazy_reduction_summand_bound ev else decremented))
       [0..<decomp_mod_count]
       (replicate key_component_count (replicate coeff_count 0), lazy_reduction_summand_bound ev)"

text \<open>The slice of \<open>t_poly_prod\<close> for key component \<open>k\<close> and RNS index \<open>j\<close> (final reduction).\<close>

definition switch_key_product ::
  "'d evaluator \<Rightarrow> scheme_type \<Rightarrow> nat \<Rightarrow> nat \<Rightarrow> nat \<Rightarrow> nat list \<Rightarrow> small_ntt_tables list \<Rightarrow>
     rns_poly \<Rightarrow> rns_poly \<Rightarrow> 'd ciphertext list \<Rightarrow> nat \<Rightarrow> nat \<Rightarrow> coeff_poly" where
  "switch_key_product ev the_scheme coeff_count decomp_mod_count key_component_count key_modulus
       ntt_tables t_target target key_vector k j =
     (let key_mod_count = length key_modulus;
          key_index = (if j = decomp_mod_count then key_mod_count - 1 else j);
          (t_poly_lazy, lazy_reduction_counter) =
            switch_key_accumulate ev the_scheme coeff_count decomp_mod_count key_component_count key_modulus
              key_index ntt_tables t_target target key_vector j
      in map (\<lambda>l. if lazy_reduction_counter = lazy_reduction_summand_bound ev
                   then (t_poly_lazy ! k ! l) mod 2 ^ 64
                   else barrett_reduce_128 (t_poly_lazy ! k ! l) (key_modulus ! key_index))
           [0..<coeff_count])"

text \<open>
  Modulus switching of the products for key component \<open>k\<close>: the new component \<open>j\<close> of the
  polynomial \<open>encrypted.data(k)\<close>.
\<close>

definition switch_key_mod_switch ::
  "scheme_type \<Rightarrow> nat \<Rightarrow> nat list \<Rightarrow> small_ntt_tables list \<Rightarrow> nat list \<Rightarrow>
     coeff_poly \<Rightarrow> coeff_poly \<Rightarrow> coeff_poly \<Rightarrow> nat \<Rightarrow> coeff_poly" where
  "switch_key_mod_switch the_scheme coeff_count key_modulus ntt_tables modswitch_factors
       t_poly_prod_last t_poly_prod_j encrypted_component j =
     (let key_mod_count = length key_modulus;
          t_last_lazy = inverse_ntt_negacyclic_harvey_lazy (ntt_tables ! (key_mod_count - 1))
                          t_poly_prod_last;
          half = (key_modulus ! (key_mod_count - 1)) div 2;
          t_last = map (\<lambda>l. barrett_reduce_63 ((t_last_lazy ! l + half) mod 2 ^ 64)
                                (key_modulus ! (key_mod_count - 1)))
                     [0..<coeff_count];
          reduced = modulo_poly_coeffs_63 t_last coeff_count (key_modulus ! j);
          fix = barrett_reduce_63 half (key_modulus ! j);
          fixed = map (\<lambda>l. sub_uint_uint_mod (reduced ! l) fix (key_modulus ! j)) [0..<coeff_count];
          t_ntt = (if the_scheme = CKKS then ntt_negacyclic_harvey (ntt_tables ! j) fixed else fixed);
          t_else = (if the_scheme = CKKS then t_poly_prod_j
                    else if the_scheme = BFV then inverse_ntt_negacyclic_harvey (ntt_tables ! j) t_poly_prod_j
                    else t_poly_prod_j);
          difference = sub_poly_poly_coeffmod t_else t_ntt coeff_count (key_modulus ! j);
          scaled = multiply_poly_scalar_coeffmod difference coeff_count (modswitch_factors ! j) (key_modulus ! j)
      in add_poly_poly_coeffmod scaled encrypted_component coeff_count (key_modulus ! j))"

text \<open>
  The source indexes the key vector, the buffers of the keys, the target and the
  ciphertext without a check. These are the bounds it relies on; outside them the
  behaviour of the C++ is undefined.
\<close>

definition switch_key_in_bounds ::
  "'d ciphertext \<Rightarrow> rns_poly \<Rightarrow> 'd ciphertext list \<Rightarrow> nat \<Rightarrow> nat \<Rightarrow> nat \<Rightarrow> bool" where
  "switch_key_in_bounds encrypted target_poly key_vector key_component_count decomp_mod_count key_mod_count =
     (decomp_mod_count \<le> length key_vector \<and>
      decomp_mod_count \<le> length target_poly \<and>
      key_component_count \<le> length (ct_data encrypted) \<and>
      list_all (\<lambda>each_key.
          key_component_count \<le> length (ct_data each_key) \<and>
          list_all (\<lambda>poly. key_mod_count \<le> length poly) (ct_data each_key))
        key_vector)"

definition switch_key_inplace ::
  "'d evaluator \<Rightarrow> 'd ciphertext \<Rightarrow> rns_poly option \<Rightarrow> 'd kswitch_keys \<Rightarrow> nat \<Rightarrow> memory_pool_handle \<Rightarrow>
     'd ciphertext outcome" where
  "switch_key_inplace ev encrypted target kswitch_keys kswitch_keys_index pool =
     deref (get_context_data (context_of ev) (ct_parms_id encrypted)) encrypted (\<lambda>context_data.
     deref (key_context_data (context_of ev)) encrypted (\<lambda>key_context_data.
       let scheme = scheme (parms context_data)
       in if \<not> is_metadata_valid_for encrypted (context_of ev) \<or> \<not> is_buffer_valid encrypted (context_of ev)
          then Thrown (invalid_argument ''encrypted is not valid for encryption parameters'') encrypted
          else case target of
            None \<Rightarrow> Thrown (invalid_argument ''target'') encrypted
          | Some target_poly \<Rightarrow>
          if \<not> using_keyswitching (context_of ev)
          then Thrown (logic_error ''keyswitching is not supported by the context'') encrypted
          else if ks_parms_id kswitch_keys \<noteq> key_parms_id (context_of ev)
          then Thrown (invalid_argument ''parameter mismatch'') encrypted
          else if kswitch_keys_index \<ge> length (ks_data kswitch_keys)
          then Thrown (out_of_range ''kswitch_keys_index'') encrypted
          else if \<not> pool
          then Thrown (invalid_argument ''pool is uninitialized'') encrypted
          else if scheme = BFV \<and> ct_is_ntt_form encrypted
          then Thrown (invalid_argument ''BFV encrypted cannot be in NTT form'') encrypted
          else if scheme = CKKS \<and> \<not> ct_is_ntt_form encrypted
          then Thrown (invalid_argument ''CKKS encrypted must be in NTT form'') encrypted
          else
            let coeff_count = poly_modulus_degree (parms context_data);
                decomp_mod_count = length (coeff_modulus (parms context_data));
                key_modulus = coeff_modulus (parms key_context_data);
                rns_mod_count = decomp_mod_count + 1;
                small_ntt_tables = small_ntt_tables key_context_data;
                modswitch_factors = inv_q_last_mod_q (rns_tool key_context_data)
            in if \<not> product_fits_in [coeff_count, rns_mod_count, 2]
               then Thrown (logic_error ''invalid parameters'') encrypted
               else case ks_data kswitch_keys ! kswitch_keys_index of
                 [] \<Rightarrow> Thrown (undefined_behaviour ''key_vector[0] of an empty vector'') encrypted
               | first_key # other_keys \<Rightarrow>
                   let key_vector = first_key # other_keys;
                       key_component_count = ct_size first_key
                   in if \<not> list_all (\<lambda>each_key.
                           is_metadata_valid_for each_key (context_of ev) \<and>
                           is_buffer_valid each_key (context_of ev)) key_vector
                      then Thrown (invalid_argument ''kswitch_keys is not valid for encryption parameters'')
                             encrypted
                      else if \<not> switch_key_in_bounds encrypted target_poly key_vector key_component_count
                                decomp_mod_count (length key_modulus)
                      then Thrown (undefined_behaviour ''access past the end of a buffer'') encrypted
                      else
                        let copied = set_poly_poly target_poly coeff_count decomp_mod_count;
                            t_target =
                              (if scheme = CKKS
                               then for_each_component decomp_mod_count (\<lambda>i.
                                      inverse_ntt_negacyclic_harvey (small_ntt_tables ! i) (copied ! i))
                               else copied);
                            t_poly_prod = (\<lambda>k j.
                              switch_key_product ev scheme coeff_count decomp_mod_count key_component_count
                                key_modulus small_ntt_tables t_target target_poly key_vector k j)
                        in Returned (encrypted\<lparr>ct_data :=
                             for_each_poly key_component_count (\<lambda>k.
                               for_each_component decomp_mod_count (\<lambda>j.
                                 switch_key_mod_switch scheme coeff_count key_modulus small_ntt_tables
                                   modswitch_factors (t_poly_prod k decomp_mod_count) (t_poly_prod k j)
                                   (ct_data encrypted ! k ! j) j))
                               (ct_data encrypted)\<rparr>)))"

subsection \<open>Relinearization\<close>

text \<open>
  The loop of \<open>relinearize_internal\<close>. The iterator \<open>encrypted_iter\<close> is set once, to the
  last polynomial, and not moved in the loop; \<open>encrypted_size\<close> is decremented.
\<close>

fun relinearize_loop ::
  "'d evaluator \<Rightarrow> 'd kswitch_keys \<Rightarrow> memory_pool_handle \<Rightarrow> nat \<Rightarrow> nat \<Rightarrow> nat \<Rightarrow> 'd ciphertext \<Rightarrow>
     'd ciphertext outcome" where
  "relinearize_loop ev relin_keys pool last_index 0 encrypted_size encrypted = Returned encrypted"
| "relinearize_loop ev relin_keys pool last_index (Suc relins) encrypted_size encrypted =
     and_then
       (switch_key_inplace ev encrypted
          (if last_index < length (ct_data encrypted) then Some (ct_data encrypted ! last_index) else None)
          relin_keys (RelinKeys_get_index ev (encrypted_size - 1)) pool)
       (relinearize_loop ev relin_keys pool last_index relins (encrypted_size - 1))"

definition relinearize_internal ::
  "'d evaluator \<Rightarrow> 'd ciphertext \<Rightarrow> 'd kswitch_keys \<Rightarrow> nat \<Rightarrow> memory_pool_handle \<Rightarrow> 'd ciphertext outcome" where
  "relinearize_internal ev encrypted relin_keys destination_size pool =
     (case get_context_data (context_of ev) (ct_parms_id encrypted) of
        None \<Rightarrow> Thrown (invalid_argument ''encrypted is not valid for encryption parameters'') encrypted
      | Some context_data_ptr \<Rightarrow>
          if ks_parms_id relin_keys \<noteq> key_parms_id (context_of ev)
          then Thrown (invalid_argument ''relin_keys is not valid for encryption parameters'') encrypted
          else
            let encrypted_size = ct_size encrypted
            in if destination_size < 2 \<or> destination_size > encrypted_size
               then Thrown (invalid_argument
                      ''destination_size must be at least 2 and less than or equal to current count'')
                      encrypted
               else case sub_safe encrypted_size 2 of
                 Inl e \<Rightarrow> Thrown e encrypted
               | Inr needed_keys \<Rightarrow>
                   if ks_size relin_keys < needed_keys
                   then Thrown (invalid_argument ''not enough relinearization keys'') encrypted
                   else if destination_size = encrypted_size
                   then Returned encrypted
                   else
                     let relins_needed = encrypted_size - destination_size
                     in and_then
                          (relinearize_loop ev relin_keys pool (encrypted_size - 1) relins_needed
                             encrypted_size encrypted)
                          (\<lambda>switched. transparent_guard ev (resize switched context_data_ptr destination_size)))"

text \<open>
  Modelled from the spec: the wrapper \<^verbatim>\<open>relinearize_inplace\<close> is defined in
  seal/evaluator.h, not part of the sources at hand; it relinearizes to size 2
  (section 6).
\<close>

definition relinearize_inplace ::
  "'d evaluator \<Rightarrow> 'd ciphertext \<Rightarrow> 'd kswitch_keys \<Rightarrow> memory_pool_handle \<Rightarrow> 'd ciphertext outcome" where
  "relinearize_inplace ev encrypted relin_keys pool = relinearize_internal ev encrypted relin_keys 2 pool"

subsection \<open>Galois automorphisms and rotations\<close>

text \<open>
  Modelled from the spec: \<^verbatim>\<open>set_zero_poly\<close> (seal/util/polycore.h, not part of the sources
  at hand) zeroes a polynomial (section 4.9, step 3).
\<close>

definition set_zero_poly :: "nat \<Rightarrow> nat \<Rightarrow> rns_poly" where
  "set_zero_poly coeff_count coeff_modulus_count = zero_poly coeff_count coeff_modulus_count"

definition apply_galois_inplace ::
  "'d evaluator \<Rightarrow> 'd ciphertext \<Rightarrow> nat \<Rightarrow> 'd kswitch_keys \<Rightarrow> memory_pool_handle \<Rightarrow> 'd ciphertext outcome" where
  "apply_galois_inplace ev encrypted galois_elt galois_keys pool =
     (if \<not> is_metadata_valid_for encrypted (context_of ev) \<or> \<not> is_buffer_valid encrypted (context_of ev)
      then Thrown (invalid_argument ''encrypted is not valid for encryption parameters'') encrypted
      else if ks_parms_id galois_keys \<noteq> key_parms_id (context_of ev)
      then Thrown (invalid_argument ''galois_keys is not valid for encryption parameters'') encrypted
      else deref (get_context_data (context_of ev) (ct_parms_id encrypted)) encrypted (\<lambda>context_data.
        deref (key_context_data (context_of ev)) encrypted (\<lambda>key_context_data.
        let coeff_modulus = coeff_modulus (parms context_data);
            coeff_count = poly_modulus_degree (parms context_data);
            coeff_modulus_count = length coeff_modulus;
            encrypted_size = ct_size encrypted;
            galois_tool = galois_tool key_context_data
        in if \<not> product_fits_in [coeff_count, coeff_modulus_count]
           then Thrown (logic_error ''invalid parameters'') encrypted
           else if \<not> has_key galois_keys galois_elt
           then Thrown (invalid_argument ''Galois key not present'') encrypted
           else case mul_safe coeff_count 2 of
             Inl e \<Rightarrow> Thrown e encrypted
           | Inr m \<Rightarrow>
               if \<not> odd galois_elt \<or> galois_elt \<ge> m
               then Thrown (invalid_argument ''Galois element is not valid'') encrypted
               else if encrypted_size > 2
               then Thrown (invalid_argument ''encrypted size must be 2'') encrypted
               else case
                   (case scheme (parms context_data) of
                      BFV \<Rightarrow> Inr
                        (for_each_component coeff_modulus_count (\<lambda>j.
                           apply_galois galois_tool (ct_data encrypted ! 0 ! j) galois_elt (coeff_modulus ! j)),
                         for_each_component coeff_modulus_count (\<lambda>j.
                           apply_galois galois_tool (ct_data encrypted ! 1 ! j) galois_elt (coeff_modulus ! j)))
                    | CKKS \<Rightarrow> Inr
                        (for_each_component coeff_modulus_count (\<lambda>j.
                           apply_galois_ntt galois_tool (ct_data encrypted ! 0 ! j) galois_elt),
                         for_each_component coeff_modulus_count (\<lambda>j.
                           apply_galois_ntt galois_tool (ct_data encrypted ! 1 ! j) galois_elt))
                    | other_scheme \<Rightarrow> Inl (logic_error ''scheme not implemented''))
                 of
                   Inl e \<Rightarrow> Thrown e encrypted
                 | Inr (first_transformed, temp) \<Rightarrow>
                     let permuted = encrypted\<lparr>ct_data := (ct_data encrypted)
                           [0 := set_poly_poly first_transformed coeff_count coeff_modulus_count,
                            1 := set_zero_poly coeff_count coeff_modulus_count]\<rparr>
                     in and_then
                          (switch_key_inplace ev permuted (Some temp) galois_keys
                             (GaloisKeys_get_index ev galois_elt) pool)
                          (transparent_guard ev))))"

text \<open>
  \<open>rotate_internal\<close> calls itself for every term of the non-adjacent form. The first
  argument bounds the depth of these calls: \<open>None\<close> is returned when it is used up, so a
  result \<open>Some\<close> is a run of the source that ends.
\<close>

fun rotate_internal ::
  "nat \<Rightarrow> 'd evaluator \<Rightarrow> 'd ciphertext \<Rightarrow> int \<Rightarrow> 'd kswitch_keys \<Rightarrow> memory_pool_handle \<Rightarrow>
     'd ciphertext outcome option" where
  "rotate_internal 0 ev encrypted steps galois_keys pool = None"
| "rotate_internal (Suc depth) ev encrypted steps galois_keys pool =
     (case get_context_data (context_of ev) (ct_parms_id encrypted) of
        None \<Rightarrow> Some (Thrown (invalid_argument ''encrypted is not valid for encryption parameters'') encrypted)
      | Some context_data_ptr \<Rightarrow>
          if \<not> using_batching (qualifiers context_data_ptr)
          then Some (Thrown (logic_error ''encryption parameters do not support batching'') encrypted)
          else if ks_parms_id galois_keys \<noteq> key_parms_id (context_of ev)
          then Some (Thrown (invalid_argument ''galois_keys is not valid for encryption parameters'') encrypted)
          else if steps = 0
          then Some (Returned encrypted)
          else
            let coeff_count = poly_modulus_degree (parms context_data_ptr);
                galois_tool = galois_tool context_data_ptr
            in if has_key galois_keys (get_elt_from_step galois_tool steps)
               then Some (apply_galois_inplace ev encrypted (get_elt_from_step galois_tool steps)
                            galois_keys pool)
               else
                 let naf_steps = naf ev steps
                 in if length naf_steps = 1
                    then Some (Thrown (invalid_argument ''Galois key not present'') encrypted)
                    else fold (\<lambda>step state.
                           case state of
                             None \<Rightarrow> None
                           | Some (Thrown e current) \<Rightarrow> Some (Thrown e current)
                           | Some (Returned current) \<Rightarrow>
                               if nat \<bar>step\<bar> \<noteq> coeff_count div 2
                               then rotate_internal depth ev current step galois_keys pool
                               else Some (Returned current))
                         naf_steps (Some (Returned encrypted)))"

subsection \<open>Products of many ciphertexts, powers\<close>

text \<open>
  Modelled from the spec: the wrappers \<^verbatim>\<open>multiply\<close> and \<open>square\<close> with a destination are
  defined in seal/evaluator.h, not part of the sources at hand (section 6): the
  destination receives a copy of the first operand, which is then multiplied or squared
  in place. An exception leaves the scratch destination of the caller behind, so only
  the exception is kept.
\<close>

definition multiply :: "'d evaluator \<Rightarrow> 'd ciphertext \<Rightarrow> 'd ciphertext \<Rightarrow> 'd ciphertext outcome" where
  "multiply ev encrypted1 encrypted2 = multiply_inplace ev encrypted1 encrypted2"

definition square :: "'d evaluator \<Rightarrow> 'd ciphertext \<Rightarrow> 'd ciphertext outcome" where
  "square ev encrypted = square_inplace ev encrypted"

text \<open>
  The second loop of \<open>multiply_many\<close> appends to the vector it runs over: each round reads
  two elements and adds one. The result is the exception, or the vector at the end.
\<close>

function multiply_many_loop ::
  "'d evaluator \<Rightarrow> 'd kswitch_keys \<Rightarrow> memory_pool_handle \<Rightarrow> nat \<Rightarrow> 'd ciphertext list \<Rightarrow>
     error + 'd ciphertext list" where
  "multiply_many_loop ev relin_keys pool i product_vec =
     (if i < length product_vec - 1
      then (case and_then (multiply ev (product_vec ! i) (product_vec ! (i + 1)))
                   (\<lambda>temp. relinearize_inplace ev temp relin_keys pool) of
              Thrown e temp \<Rightarrow> Inl e
            | Returned temp \<Rightarrow> multiply_many_loop ev relin_keys pool (i + 2) (product_vec @ [temp]))
      else Inr product_vec)"
  by pat_completeness auto
termination
  by (relation "measure (\<lambda>(ev, relin_keys, pool, i, product_vec). length product_vec - i)") auto

text \<open>
  The first level of multiplications. \<open>data_of i\<close> is the address
  \<^verbatim>\<open>encrypteds[i].data()\<close> the source compares to choose between \<open>square\<close> and \<open>multiply\<close>.
\<close>

fun multiply_many_first_level ::
  "'d evaluator \<Rightarrow> 'd kswitch_keys \<Rightarrow> memory_pool_handle \<Rightarrow> (nat \<Rightarrow> nat) \<Rightarrow> 'd ciphertext list \<Rightarrow>
     nat list \<Rightarrow> error + 'd ciphertext list" where
  "multiply_many_first_level ev relin_keys pool data_of encrypteds [] = Inr []"
| "multiply_many_first_level ev relin_keys pool data_of encrypteds (i # indices) =
     (case and_then
             (if data_of i = data_of (i + 1)
              then square ev (encrypteds ! i)
              else multiply ev (encrypteds ! i) (encrypteds ! (i + 1)))
             (\<lambda>temp. relinearize_inplace ev temp relin_keys pool) of
        Thrown e temp \<Rightarrow> Inl e
      | Returned temp \<Rightarrow>
          (case multiply_many_first_level ev relin_keys pool data_of encrypteds indices of
             Inl e \<Rightarrow> Inl e
           | Inr products \<Rightarrow> Inr (temp # products)))"

text \<open>
  \<open>multiply_many\<close>; the outcome is that of \<open>destination\<close>. \<open>destination_index\<close> is \<open>Some i\<close>
  when the destination is the element \<^verbatim>\<open>encrypteds[i]\<close> of the vector (the address
  comparison of the source).
\<close>

definition multiply_many ::
  "'d evaluator \<Rightarrow> 'd ciphertext list \<Rightarrow> (nat \<Rightarrow> nat) \<Rightarrow> 'd kswitch_keys \<Rightarrow> nat option \<Rightarrow> 'd ciphertext \<Rightarrow>
     memory_pool_handle \<Rightarrow> 'd ciphertext outcome" where
  "multiply_many ev encrypteds data_of relin_keys destination_index destination pool =
     (if length encrypteds = 0
      then Thrown (invalid_argument ''encrypteds vector must not be empty'') destination
      else if \<not> pool
      then Thrown (invalid_argument ''pool is uninitialized'') destination
      else if list_ex (\<lambda>i. destination_index = Some i) [0..<length encrypteds]
      then Thrown (invalid_argument ''encrypteds must be different from destination'') destination
      else case get_context_data (context_of ev) (ct_parms_id (encrypteds ! 0)) of
        None \<Rightarrow> Thrown (invalid_argument ''encrypteds is not valid for encryption parameters'') destination
      | Some context_data \<Rightarrow>
          if scheme (parms context_data) \<noteq> BFV
          then Thrown (logic_error ''unsupported scheme'') destination
          else if length encrypteds = 1
          then Returned (encrypteds ! 0)
          else
            case multiply_many_first_level ev relin_keys pool data_of encrypteds
                   (map (\<lambda>n. 2 * n) [0..<length encrypteds div 2]) of
              Inl e \<Rightarrow> Thrown e destination
            | Inr products \<Rightarrow>
                let product_vec =
                      (if odd (length encrypteds) then products @ [last encrypteds] else products)
                in case multiply_many_loop ev relin_keys pool 0 product_vec of
                     Inl e \<Rightarrow> Thrown e destination
                   | Inr final_vec \<Rightarrow> Returned (last final_vec))"

text \<open>
  \<open>exponentiate_inplace\<close>. The vector holds \<open>exponent\<close> copies of \<open>encrypted\<close>, each with a
  buffer of its own from the memory pool; \<open>copies_data i\<close> is the address of the buffer
  of copy \<open>i\<close>. None of the copies is the object \<open>encrypted\<close> itself.
\<close>

definition exponentiate_inplace ::
  "'d evaluator \<Rightarrow> 'd ciphertext \<Rightarrow> nat \<Rightarrow> 'd kswitch_keys \<Rightarrow> memory_pool_handle \<Rightarrow> (nat \<Rightarrow> nat) \<Rightarrow>
     'd ciphertext outcome" where
  "exponentiate_inplace ev encrypted exponent relin_keys pool copies_data =
     (case get_context_data (context_of ev) (ct_parms_id encrypted) of
        None \<Rightarrow> Thrown (invalid_argument ''encrypted is not valid for encryption parameters'') encrypted
      | Some context_data_ptr \<Rightarrow>
          if get_context_data (context_of ev) (ks_parms_id relin_keys) = None
          then Thrown (invalid_argument ''relin_keys is not valid for encryption parameters'') encrypted
          else if \<not> pool
          then Thrown (invalid_argument ''pool is uninitialized'') encrypted
          else if exponent = 0
          then Thrown (invalid_argument ''exponent cannot be 0'') encrypted
          else if exponent = 1
          then Returned encrypted
          else
            let exp_vector = replicate exponent encrypted
            in multiply_many ev exp_vector copies_data relin_keys None encrypted pool)"

subsection \<open>A small parameter chain for concrete runs\<close>

text \<open>
  A chain of three parameter points of degree 2: the key point with primes 5, 7, 11,
  the first data point with 5, 7 and the last with 5. The collaborators are simple
  stand-ins of the right shape; doubles are played by integers.
\<close>

definition toy_ntt :: small_ntt_tables where
  "toy_ntt = \<lparr>ntt_negacyclic_harvey = (\<lambda>p. p), ntt_negacyclic_harvey_lazy = (\<lambda>p. p),
     inverse_ntt_negacyclic_harvey = (\<lambda>p. p), inverse_ntt_negacyclic_harvey_lazy = (\<lambda>p. p)\<rparr>"

definition toy_rns_tool :: "nat \<Rightarrow> rns_tool" where
  "toy_rns_tool k = \<lparr>base_Bsk = [13], base_Bsk_m_tilde = [13, 17],
     base_Bsk_small_ntt_tables = [toy_ntt],
     fastbconv_m_tilde = (\<lambda>p. [p ! 0, p ! 0]), sm_mrq = (\<lambda>p. [p ! 0]),
     fast_floor = (\<lambda>p. [last p]), fastbconv_sk = (\<lambda>p. replicate k (p ! 0)),
     divide_and_round_q_last_inplace = (\<lambda>p. p),
     divide_and_round_q_last_ntt_inplace = (\<lambda>p tables. p),
     inv_q_last_mod_q = replicate k 1\<rparr>"

definition toy_galois_tool :: galois_tool where
  "toy_galois_tool = \<lparr>apply_galois = (\<lambda>p elt q. rev p), apply_galois_ntt = (\<lambda>p elt. rev p),
     get_elt_from_step = (\<lambda>steps. 3)\<rparr>"

definition toy_context_data ::
  "scheme_type \<Rightarrow> parms_id_type \<Rightarrow> nat list \<Rightarrow> int \<Rightarrow> nat \<Rightarrow> context_data option \<Rightarrow> context_data" where
  "toy_context_data s pid primes bits index next_point =
     ContextData \<lparr>scheme = s, poly_modulus_degree = 2, coeff_modulus = primes, plain_modulus = 3\<rparr>
       pid bits index \<lparr>using_batching = True\<rparr> (replicate (length primes) toy_ntt)
       (toy_rns_tool (length primes)) toy_galois_tool next_point"

definition toy_last :: "scheme_type \<Rightarrow> context_data" where
  "toy_last s = toy_context_data s 3 [5] 3 0 None"

definition toy_first :: "scheme_type \<Rightarrow> context_data" where
  "toy_first s = toy_context_data s 2 [5, 7] 6 1 (Some (toy_last s))"

definition toy_key :: "scheme_type \<Rightarrow> context_data" where
  "toy_key s = toy_context_data s 1 [5, 7, 11] 9 2 (Some (toy_first s))"

definition toy_context :: "scheme_type \<Rightarrow> sealcontext" where
  "toy_context s = \<lparr>context_data_map = [1 \<mapsto> toy_key s, 2 \<mapsto> toy_first s, 3 \<mapsto> toy_last s],
     key_parms_id = 1, first_parms_id = 2, last_parms_id = 3, using_keyswitching = True\<rparr>"

definition toy_log2 :: "int \<Rightarrow> int" where
  "toy_log2 x = int (length (filter (\<lambda>k. 2 ^ k \<le> x) [1..<64]))"

definition toy_evaluator :: "scheme_type \<Rightarrow> int evaluator" where
  "toy_evaluator s = \<lparr>context_of = toy_context s, throw_on_transparent = False,
     dbl_mul = (\<lambda>a b. a * b), dbl_div = (\<lambda>a b. a div b), dbl_of_uint64 = int,
     dbl_le_zero = (\<lambda>a. a \<le> 0), dbl_log2_int = toy_log2, are_close = (\<lambda>a b. a = b),
     RelinKeys_get_index = (\<lambda>key_power. key_power - 2),
     GaloisKeys_get_index = (\<lambda>galois_elt. (galois_elt - 1) div 2),
     naf = (\<lambda>steps. [steps]), SEAL_USER_MOD_BIT_COUNT_MAX = 60\<rparr>"

text \<open>
  Ciphertexts at the first data point (of size 2 and of size 3), a plaintext that is not
  in NTT form, and a key set at the key parameter point that holds no key.
\<close>

definition toy_ciphertext :: "bool \<Rightarrow> int \<Rightarrow> rns_poly list \<Rightarrow> int ciphertext" where
  "toy_ciphertext ntt the_scale polys =
     \<lparr>ct_parms_id = 2, ct_is_ntt_form = ntt, ct_size = length polys, ct_scale = the_scale,
      ct_data = polys\<rparr>"

definition toy_polys_a :: "rns_poly list" where
  "toy_polys_a = [[[1, 2], [3, 4]], [[4, 0], [6, 1]]]"

definition toy_polys_b :: "rns_poly list" where
  "toy_polys_b = [[[2, 2], [0, 5]], [[3, 1], [2, 2]], [[0, 4], [1, 0]]]"

definition toy_plain :: "int plaintext" where
  "toy_plain = \<lparr>pt_parms_id = 0, pt_scale = 1, pt_data = [2, 1]\<rparr>"

definition toy_keys :: "int kswitch_keys" where
  "toy_keys = \<lparr>ks_parms_id = 1, ks_data = [], ks_size = 0, has_key = (\<lambda>galois_elt. False)\<rparr>"

text \<open>The same key set, answering every lookup with "present".\<close>

definition toy_all_keys :: "int kswitch_keys" where
  "toy_all_keys = \<lparr>ks_parms_id = 1, ks_data = [], ks_size = 0, has_key = (\<lambda>galois_elt. True)\<rparr>"

section \<open>Properties\<close>

subsection \<open>Auxiliary facts\<close>

lemmas upt_eval =
  upt_rec [of 0 "numeral n"] upt_rec [of "Suc m" "numeral n"] upt_rec [of 0 "Suc n"]
  upt_rec [of "Suc m" "Suc n"] for m n

lemmas toy_defs =
  toy_evaluator_def toy_context_def toy_key_def toy_first_def toy_last_def toy_context_data_def
  toy_rns_tool_def toy_galois_tool_def toy_ntt_def toy_ciphertext_def toy_polys_a_def toy_polys_b_def
  toy_plain_def toy_keys_def toy_all_keys_def toy_log2_def

lemmas validity_defs =
  is_metadata_valid_for_def is_buffer_valid_def get_context_data_def first_context_data_def
  key_context_data_def are_same_scale_def deref_def product_fits_in_def uint64_max_def

lemmas data_defs =
  resize_def zero_poly_def zero_uint_def for_each_poly_def for_each_component_def
  transparent_guard_def is_transparent_def set_uint_uint_def set_poly_poly_def

lemmas coeff_defs =
  add_poly_poly_coeffmod_def sub_poly_poly_coeffmod_def negate_poly_coeffmod_def
  dyadic_product_coeffmod_def multiply_poly_scalar_coeffmod_def add_uint_uint_mod_def
  sub_uint_uint_mod_def negate_uint_mod_def multiply_uint_uint_mod_def

lemma upt_2: "[0..<2] = [0, 1]"
  by (simp add: upt_rec)

lemma upt_3: "[0..<3] = [0, 1, 2]"
  by (simp add: upt_rec)

lemma is_buffer_valid_length:
  "is_buffer_valid c context \<Longrightarrow> length (ct_data c) = ct_size c"
  by (auto simp: is_buffer_valid_def split: option.splits)

lemma resize_keeps_polys:
  "i < length (ct_data c) \<Longrightarrow> i < new_size \<Longrightarrow> ct_data (resize c cd new_size) ! i = ct_data c ! i"
  by (simp add: resize_def nth_append)

lemma for_each_component_cong:
  "(\<And>j. j < n \<Longrightarrow> f j = g j) \<Longrightarrow> for_each_component n f = for_each_component n g"
  by (simp add: for_each_component_def)

lemma for_each_component_nth: "j < n \<Longrightarrow> for_each_component n f ! j = f j"
  by (simp add: for_each_component_def)

lemma zero_poly_nth: "j < k \<Longrightarrow> zero_poly n k ! j = zero_uint n"
  by (simp add: zero_poly_def)

subsection \<open>Subtraction of a shorter from a longer ciphertext\<close>

text \<open>
  C6. When \<open>sub_inplace\<close> accepts two ciphertexts of sizes \<open>s1 < s2\<close>, the result has size
  \<open>s2\<close> and as many polynomials; in the first \<open>s1\<close> polynomials every coefficient is the
  difference of the operands' coefficients modulo the prime of its RNS component, and in
  the polynomials \<open>s1 .. s2 - 1\<close> every coefficient is the negation modulo that prime of
  the coefficient of the second operand (\<open>q - x\<close> for \<open>x\<close> not zero, else zero).
\<close>

theorem sub_inplace_larger_second_operand:
  assumes ret: "sub_inplace ev encrypted1 encrypted2 = Returned result"
    and less: "ct_size encrypted1 < ct_size encrypted2"
    and cd: "get_context_data (context_of ev) (ct_parms_id encrypted1) = Some context_data"
  shows "ct_size result = ct_size encrypted2 \<and>
    length (ct_data result) = ct_size encrypted2 \<and>
    (\<forall>i<ct_size encrypted1. \<forall>j<length (coeff_modulus (parms context_data)).
       \<forall>l<poly_modulus_degree (parms context_data).
         ct_data result ! i ! j ! l =
           nat ((int (ct_data encrypted1 ! i ! j ! l) - int (ct_data encrypted2 ! i ! j ! l))
                 mod int (coeff_modulus (parms context_data) ! j))) \<and>
    (\<forall>i. ct_size encrypted1 \<le> i \<and> i < ct_size encrypted2 \<longrightarrow>
       (\<forall>j<length (coeff_modulus (parms context_data)).
        \<forall>l<poly_modulus_degree (parms context_data).
          ct_data result ! i ! j ! l =
            (if ct_data encrypted2 ! i ! j ! l \<noteq> 0
             then coeff_modulus (parms context_data) ! j - ct_data encrypted2 ! i ! j ! l
             else 0)))"
proof -
  let ?s1 = "ct_size encrypted1" and ?s2 = "ct_size encrypted2"
  let ?q = "coeff_modulus (parms context_data)"
  let ?N = "poly_modulus_degree (parms context_data)"
  let ?k = "length ?q"
  let ?resized = "resize encrypted1 context_data ?s2"
  let ?sub = "\<lambda>i. for_each_component ?k (\<lambda>j.
      sub_poly_poly_coeffmod (ct_data ?resized ! i ! j) (ct_data encrypted2 ! i ! j) ?N (?q ! j))"
  let ?neg = "\<lambda>i. for_each_component ?k (\<lambda>j.
      negate_poly_coeffmod (ct_data encrypted2 ! i ! j) ?N (?q ! j))"
  let ?subtracted = "for_each_poly ?s1 ?sub (ct_data ?resized)"
  let ?negated = "take ?s1 ?subtracted @ map ?neg [?s1..<?s1 + (?s2 - ?s1)] @
      drop (?s1 + (?s2 - ?s1)) ?subtracted"
  from ret less cd have valid1: "is_buffer_valid encrypted1 (context_of ev)"
    by (auto simp: sub_inplace_def split: if_splits)
  from ret less cd have res: "result = ?resized\<lparr>ct_data := ?negated\<rparr>"
    by (auto simp: sub_inplace_def deref_def Let_def transparent_guard_def max_def min_def
        split: if_splits)
  have len1: "length (ct_data encrypted1) = ?s1"
    using valid1 by (rule is_buffer_valid_length)
  have resized_data: "ct_data ?resized = ct_data encrypted1 @ replicate (?s2 - ?s1) (zero_poly ?N ?k)"
    using less len1 by (simp add: resize_def)
  have len_subtracted: "length ?subtracted = ?s2"
    using less len1 by (simp add: for_each_poly_def resized_data)
  have take_sub: "take ?s1 ?subtracted = map ?sub [0..<?s1]"
    by (simp add: for_each_poly_def)
  have negated: "?negated = map ?sub [0..<?s1] @ map ?neg [?s1..<?s2]"
    using less len_subtracted by (simp add: take_sub)
  have size: "ct_size result = ?s2"
    by (simp add: res resize_def)
  define final where "final = ?negated"
  have "ct_data result = final"
    unfolding res final_def [symmetric] by simp
  then have data: "ct_data result = map ?sub [0..<?s1] @ map ?neg [?s1..<?s2]"
    unfolding final_def by (simp only: negated)
  have len: "length (ct_data result) = ?s2"
    using less by (simp add: data)
  have low: "ct_data result ! i ! j ! l =
      nat ((int (ct_data encrypted1 ! i ! j ! l) - int (ct_data encrypted2 ! i ! j ! l)) mod int (?q ! j))"
    if "i < ?s1" "j < ?k" "l < ?N" for i j l
  proof -
    have "ct_data result ! i = ?sub i"
      using that(1) by (simp add: data nth_append)
    moreover have "ct_data ?resized ! i = ct_data encrypted1 ! i"
      using that(1) len1 by (simp add: resized_data nth_append)
    ultimately show ?thesis
      using that(2,3)
      by (simp add: for_each_component_def sub_poly_poly_coeffmod_def sub_uint_uint_mod_def)
  qed
  have high: "ct_data result ! i ! j ! l =
      (if ct_data encrypted2 ! i ! j ! l \<noteq> 0 then ?q ! j - ct_data encrypted2 ! i ! j ! l else 0)"
    if "?s1 \<le> i" "i < ?s2" "j < ?k" "l < ?N" for i j l
  proof -
    have "ct_data result ! i = ?neg i"
      using that(1,2) by (simp add: data nth_append)
    then show ?thesis
      using that(3,4)
      by (simp add: for_each_component_def negate_poly_coeffmod_def negate_uint_mod_def)
  qed
  show ?thesis
    using size len low high by blast
qed

text \<open>
  A size-2 ciphertext minus a size-3 ciphertext at the first data point of the small
  chain: coefficient 0 of component 0 of \<open>c_0\<close> is \<open>(1 - 2) mod 5\<close>, and coefficient 0 of
  component 1 of \<open>c_2\<close> is \<open>7 - 1\<close>.
\<close>

theorem sub_inplace_larger_second_operand_witness:
  "sub_inplace (toy_evaluator BFV) (toy_ciphertext False 1 toy_polys_a)
       (toy_ciphertext False 1 toy_polys_b) =
     Returned (toy_ciphertext False 1
       [[[4, 0], [3, 6]], [[1, 4], [4, 6]], [[0, 1], [6, 0]]]) \<and>
   ct_size (toy_ciphertext False 1 toy_polys_a) < ct_size (toy_ciphertext False 1 toy_polys_b) \<and>
   ct_size (toy_ciphertext False 1 [[[4, 0], [3, 6]], [[1, 4], [4, 6]], [[0, 1], [6, 0]]]) = 3 \<and>
   ct_data (toy_ciphertext False 1 [[[4, 0], [3, 6]], [[1, 4], [4, 6]], [[0, 1], [6, 0]]]) ! 0 ! 0 ! 0 =
     nat ((int 1 - int 2) mod int 5) \<and>
   ct_data (toy_ciphertext False 1 [[[4, 0], [3, 6]], [[1, 4], [4, 6]], [[0, 1], [6, 0]]]) ! 2 ! 1 ! 0 =
     7 - 1"
proof -
  let ?a = "toy_ciphertext False 1 toy_polys_a" and ?b = "toy_ciphertext False 1 toy_polys_b"
  let ?r = "toy_ciphertext False 1 [[[4, 0], [3, 6]], [[1, 4], [4, 6]], [[0, 1], [6, 0]]]"
  have ret: "sub_inplace (toy_evaluator BFV) ?a ?b = Returned ?r"
    by (simp add: sub_inplace_def validity_defs data_defs coeff_defs toy_defs Let_def upt_eval)
  have less: "ct_size ?a < ct_size ?b"
    by (simp add: toy_defs)
  have cd: "get_context_data (context_of (toy_evaluator BFV)) (ct_parms_id ?a) = Some (toy_first BFV)"
    by (simp add: get_context_data_def toy_defs)
  from sub_inplace_larger_second_operand [OF ret less cd]
  have "ct_size ?r = ct_size ?b"
    and "\<forall>i<ct_size ?a. \<forall>j<length (coeff_modulus (parms (toy_first BFV))).
       \<forall>l<poly_modulus_degree (parms (toy_first BFV)).
         ct_data ?r ! i ! j ! l =
           nat ((int (ct_data ?a ! i ! j ! l) - int (ct_data ?b ! i ! j ! l))
                 mod int (coeff_modulus (parms (toy_first BFV)) ! j))"
    and "\<forall>i. ct_size ?a \<le> i \<and> i < ct_size ?b \<longrightarrow>
       (\<forall>j<length (coeff_modulus (parms (toy_first BFV))).
        \<forall>l<poly_modulus_degree (parms (toy_first BFV)).
          ct_data ?r ! i ! j ! l =
            (if ct_data ?b ! i ! j ! l \<noteq> 0
             then coeff_modulus (parms (toy_first BFV)) ! j - ct_data ?b ! i ! j ! l
             else 0))"
    by blast+
  then show ?thesis
    using ret less by (simp add: toy_defs)
qed

subsection \<open>Squaring against multiplication by itself\<close>

lemma dyadic_product_coeffmod_commute:
  "dyadic_product_coeffmod a b n q = dyadic_product_coeffmod b a n q"
  by (simp add: dyadic_product_coeffmod_def multiply_uint_uint_mod_def mult.commute)

lemma add_dyadic_zero:
  "add_poly_poly_coeffmod (dyadic_product_coeffmod a b n q) (zero_uint n) n q =
     dyadic_product_coeffmod a b n q"
  by (simp add: add_poly_poly_coeffmod_def dyadic_product_coeffmod_def zero_uint_def
      add_uint_uint_mod_def multiply_uint_uint_mod_def)

lemma behz_square_is_product:
  "behz_dyadic_multiplication n 2 2 3 xs xs base k = behz_ciphertext_square n xs base k"
proof -
  have d0: "behz_ciphertext_product n 0 0 1 xs xs base k (zero_poly n k) =
      for_each_component k (\<lambda>j. dyadic_product_coeffmod (xs ! 0 ! j) (xs ! 0 ! j) n (base ! j))"
    by (auto simp: behz_ciphertext_product_def zero_poly_nth add_dyadic_zero
        intro!: for_each_component_cong)
  have d2: "behz_ciphertext_product n 1 1 1 xs xs base k (zero_poly n k) =
      for_each_component k (\<lambda>j. dyadic_product_coeffmod (xs ! 1 ! j) (xs ! 1 ! j) n (base ! j))"
    by (auto simp: behz_ciphertext_product_def zero_poly_nth add_dyadic_zero
        intro!: for_each_component_cong)
  have d1: "behz_ciphertext_product n 0 1 2 xs xs base k (zero_poly n k) =
      for_each_component k (\<lambda>j.
        let product = dyadic_product_coeffmod (xs ! 1 ! j) (xs ! 0 ! j) n (base ! j)
        in add_poly_poly_coeffmod product product n (base ! j))"
  proof -
    have "dyadic_product_coeffmod (xs ! 0 ! j) (xs ! Suc 0 ! j) n (base ! j) =
        dyadic_product_coeffmod (xs ! Suc 0 ! j) (xs ! 0 ! j) n (base ! j)" for j
      by (rule dyadic_product_coeffmod_commute)
    then show ?thesis
      by (auto simp: behz_ciphertext_product_def upt_2 zero_poly_nth add_dyadic_zero Let_def
          for_each_component_nth intro!: for_each_component_cong)
  qed
  show ?thesis
    using d0 d1 d2
    by (simp add: behz_dyadic_multiplication_def behz_ciphertext_square_def upt_3 numeral_2_eq_2)
qed

lemma multiply_dest_size_2: "multiply_dest_size 2 2 = Inr 3"
  by (simp add: multiply_dest_size_def add_safe_def sub_safe_def uint64_max_def)

lemma bfv_square_size_2:
  assumes "ct_size c = 2" "\<not> ct_is_ntt_form c" "is_buffer_valid c (context_of ev)"
  shows "bfv_square ev c = bfv_multiply ev c c"
proof -
  have len: "length (ct_data c) = 2"
    using assms(1,3) by (simp add: is_buffer_valid_length)
  have same: "map (g \<circ> (\<lambda>i. behz_extend_base_convert_to_ntt cd (ct_data (resize c cd 3) ! i))) [0..<2] =
      map (g \<circ> (\<lambda>i. behz_extend_base_convert_to_ntt cd (ct_data c ! i))) [0..<2]"
    for cd and g :: "rns_poly \<times> rns_poly \<Rightarrow> rns_poly"
    using len by (simp add: resize_keeps_polys)
  show ?thesis
    using assms(1,2)
    by (simp add: bfv_square_def bfv_multiply_def deref_def multiply_dest_size_2 Let_def
        behz_square_is_product same split: option.splits)
qed

lemma bfv_square_other_size:
  assumes "ct_size c \<noteq> 2" "\<not> ct_is_ntt_form c"
    and "get_context_data (context_of ev) (ct_parms_id c) = Some cd"
  shows "bfv_square ev c = bfv_multiply ev c c"
  using assms by (simp add: bfv_square_def deref_def Let_def)

text \<open>
  C4. For every valid BFV ciphertext that is not in NTT form, \<open>square_inplace\<close> leaves
  exactly what \<open>multiply_inplace\<close> of the ciphertext with itself leaves: the same data and
  metadata, or the same exception. For a size other than 2, \<open>bfv_square\<close> is the call
  \<open>bfv_multiply\<close> on the ciphertext and itself; for size 2 the three polynomials
  \<open>c0 * c0\<close>, \<open>2 * c0 * c1\<close>, \<open>c1 * c1\<close> of the specialization are those of the general
  dyadic convolution of a size-2 ciphertext with itself, in any base.
\<close>

theorem square_inplace_is_multiply_inplace:
  assumes valid: "is_metadata_valid_for encrypted (context_of ev)"
      "is_buffer_valid encrypted (context_of ev)"
    and first: "first_context_data (context_of ev) = Some first_data"
      "scheme (parms first_data) = BFV"
    and non_ntt: "\<not> ct_is_ntt_form encrypted"
  shows "square_inplace ev encrypted = multiply_inplace ev encrypted encrypted \<and>
    (ct_size encrypted \<noteq> 2 \<longrightarrow> bfv_square ev encrypted = bfv_multiply ev encrypted encrypted) \<and>
    behz_ciphertext_square coeff_count polys base base_size =
      behz_dyadic_multiplication coeff_count 2 2 3 polys polys base base_size"
proof -
  obtain cd where cd: "get_context_data (context_of ev) (ct_parms_id encrypted) = Some cd"
    using valid(1) by (auto simp: is_metadata_valid_for_def split: option.splits)
  have same: "bfv_square ev encrypted = bfv_multiply ev encrypted encrypted"
    using valid(2) non_ntt cd bfv_square_size_2 bfv_square_other_size by blast
  have "square_inplace ev encrypted = multiply_inplace ev encrypted encrypted"
    using valid first by (simp add: square_inplace_def multiply_inplace_def deref_def same)
  then show ?thesis
    using same by (simp add: behz_square_is_product)
qed

subsection \<open>The size of a product\<close>

lemma thrown_None_Returned: "thrown x = None \<Longrightarrow> x = Returned (state_of x)"
  by (cases x) simp_all

lemma multiply_dest_size_Inr:
  "multiply_dest_size a b = Inr d \<Longrightarrow> d + 1 = a + b"
  by (auto simp: multiply_dest_size_def add_safe_def sub_safe_def split: if_splits)

lemma multiply_dest_size_fits:
  "1 \<le> a + b \<Longrightarrow> a + b \<le> uint64_max \<Longrightarrow> multiply_dest_size a b = Inr (a + b - 1)"
  by (auto simp: multiply_dest_size_def add_safe_def sub_safe_def)

lemma bfv_multiply_accepts:
  assumes "\<not> ct_is_ntt_form e1" "\<not> ct_is_ntt_form e2"
    and "get_context_data (context_of ev) (ct_parms_id e1) = Some cd"
    and "1 \<le> ct_size e1 + ct_size e2" "ct_size e1 + ct_size e2 \<le> uint64_max"
    and "product_fits_in [ct_size e1 + ct_size e2 - 1, poly_modulus_degree (parms cd),
           length (base_Bsk_m_tilde (rns_tool cd))]"
  shows "thrown (bfv_multiply ev e1 e2) = None"
  using assms by (simp add: bfv_multiply_def deref_def Let_def multiply_dest_size_fits)

lemma ckks_multiply_accepts:
  assumes "ct_is_ntt_form e1" "ct_is_ntt_form e2"
    and "get_context_data (context_of ev) (ct_parms_id e1) = Some cd"
    and "\<not> dbl_le_zero ev (dbl_mul ev (ct_scale e1) (ct_scale e2))"
    and "dbl_log2_int ev (dbl_mul ev (ct_scale e1) (ct_scale e2)) < total_coeff_modulus_bit_count cd"
    and "1 \<le> ct_size e1 + ct_size e2" "ct_size e1 + ct_size e2 \<le> uint64_max"
    and "product_fits_in [ct_size e1 + ct_size e2 - 1, poly_modulus_degree (parms cd),
           length (coeff_modulus (parms cd))]"
  shows "thrown (ckks_multiply ev e1 e2) = None"
  using assms by (simp add: ckks_multiply_def deref_def Let_def multiply_dest_size_fits)

lemma thrown_and_then_guard:
  "\<not> throw_on_transparent ev \<Longrightarrow> thrown (and_then x (transparent_guard ev)) = thrown x"
  by (cases x) (simp_all add: transparent_guard_def)

lemma multiply_inplace_accepts:
  assumes "is_metadata_valid_for e1 (context_of ev)" "is_buffer_valid e1 (context_of ev)"
    and "is_metadata_valid_for e2 (context_of ev)" "is_buffer_valid e2 (context_of ev)"
    and "ct_parms_id e1 = ct_parms_id e2"
    and "first_context_data (context_of ev) = Some first_data"
    and "\<not> throw_on_transparent ev"
    and "scheme (parms first_data) = BFV \<and> thrown (bfv_multiply ev e1 e2) = None \<or>
         scheme (parms first_data) = CKKS \<and> thrown (ckks_multiply ev e1 e2) = None"
  shows "thrown (multiply_inplace ev e1 e2) = None"
  using assms by (auto simp: multiply_inplace_def deref_def thrown_and_then_guard)

lemma bfv_multiply_size:
  "bfv_multiply ev e1 e2 = Returned r \<Longrightarrow> ct_size r + 1 = ct_size e1 + ct_size e2"
  by (auto simp: bfv_multiply_def deref_def Let_def resize_def dest: multiply_dest_size_Inr
      split: if_splits option.splits sum.splits)

lemma ckks_multiply_size:
  "ckks_multiply ev e1 e2 = Returned r \<Longrightarrow> ct_size r + 1 = ct_size e1 + ct_size e2"
  by (auto simp: ckks_multiply_def deref_def Let_def resize_def dest: multiply_dest_size_Inr
      split: if_splits option.splits sum.splits)

lemma and_then_guard_Returned:
  "and_then x (transparent_guard ev) = Returned r \<Longrightarrow> x = Returned r"
  by (cases x) (auto simp: transparent_guard_def split: if_splits)

text \<open>
  C1. Whenever \<open>multiply_inplace\<close> accepts two ciphertexts of sizes \<open>s1\<close> and \<open>s2\<close> (under
  BFV or CKKS) and returns, the size of the result is \<open>s1 + s2 - 1\<close>. The equation is
  stated with the 1 added on the left, where subtraction on the naturals cannot truncate.
\<close>

theorem multiply_inplace_size:
  assumes "multiply_inplace ev encrypted1 encrypted2 = Returned result"
  shows "ct_size result + 1 = ct_size encrypted1 + ct_size encrypted2"
  using assms
  by (auto simp: multiply_inplace_def deref_def
      dest!: and_then_guard_Returned dest: bfv_multiply_size ckks_multiply_size
      split: if_splits option.splits scheme_type.splits)

lemma toy_bfv_accepts:
  "thrown (multiply_inplace (toy_evaluator BFV) (toy_ciphertext False 1 toy_polys_a)
       (toy_ciphertext False 1 toy_polys_b)) = None"
  by (rule multiply_inplace_accepts [where first_data = "toy_first BFV"],
      simp_all add: validity_defs toy_defs,
      rule bfv_multiply_accepts [where cd = "toy_first BFV"],
      simp_all add: validity_defs toy_defs)

lemma toy_ckks_accepts:
  "thrown (multiply_inplace (toy_evaluator CKKS) (toy_ciphertext True 4 toy_polys_a)
       (toy_ciphertext True 4 toy_polys_b)) = None"
  by (rule multiply_inplace_accepts [where first_data = "toy_first CKKS"],
      simp_all add: validity_defs toy_defs,
      rule ckks_multiply_accepts [where cd = "toy_first CKKS"],
      simp_all add: validity_defs toy_defs upt_eval)

text \<open>
  A product of a size-2 and a size-3 ciphertext is accepted under BFV and under CKKS in
  the small chain, and has size 4.
\<close>

theorem multiply_inplace_size_witness:
  "thrown (multiply_inplace (toy_evaluator BFV) (toy_ciphertext False 1 toy_polys_a)
       (toy_ciphertext False 1 toy_polys_b)) = None \<and>
   ct_size (state_of (multiply_inplace (toy_evaluator BFV) (toy_ciphertext False 1 toy_polys_a)
       (toy_ciphertext False 1 toy_polys_b))) + 1 = 2 + 3 \<and>
   thrown (multiply_inplace (toy_evaluator CKKS) (toy_ciphertext True 4 toy_polys_a)
       (toy_ciphertext True 4 toy_polys_b)) = None \<and>
   ct_size (state_of (multiply_inplace (toy_evaluator CKKS) (toy_ciphertext True 4 toy_polys_a)
       (toy_ciphertext True 4 toy_polys_b))) + 1 = 2 + 3"
  using multiply_inplace_size [OF thrown_None_Returned [OF toy_bfv_accepts]]
    multiply_inplace_size [OF thrown_None_Returned [OF toy_ckks_accepts]]
    toy_bfv_accepts toy_ckks_accepts
  by (simp add: toy_defs)

text \<open>
  The size-2 ciphertext of the small chain: squaring it agrees with multiplying it by
  itself, and the multiplication is an accepted run.
\<close>

theorem square_inplace_is_multiply_inplace_witness:
  "is_metadata_valid_for (toy_ciphertext False 1 toy_polys_a) (context_of (toy_evaluator BFV)) \<and>
   is_buffer_valid (toy_ciphertext False 1 toy_polys_a) (context_of (toy_evaluator BFV)) \<and>
   first_context_data (context_of (toy_evaluator BFV)) = Some (toy_first BFV) \<and>
   scheme (parms (toy_first BFV)) = BFV \<and>
   \<not> ct_is_ntt_form (toy_ciphertext False 1 toy_polys_a) \<and>
   ct_size (toy_ciphertext False 1 toy_polys_a) = 2 \<and>
   square_inplace (toy_evaluator BFV) (toy_ciphertext False 1 toy_polys_a) =
     multiply_inplace (toy_evaluator BFV) (toy_ciphertext False 1 toy_polys_a)
       (toy_ciphertext False 1 toy_polys_a) \<and>
   thrown (multiply_inplace (toy_evaluator BFV) (toy_ciphertext False 1 toy_polys_a)
       (toy_ciphertext False 1 toy_polys_a)) = None"
proof -
  let ?a = "toy_ciphertext False 1 toy_polys_a"
  have valid: "is_metadata_valid_for ?a (context_of (toy_evaluator BFV))"
      "is_buffer_valid ?a (context_of (toy_evaluator BFV))"
    by (simp_all add: validity_defs toy_defs)
  have first: "first_context_data (context_of (toy_evaluator BFV)) = Some (toy_first BFV)"
      "scheme (parms (toy_first BFV)) = BFV"
    by (simp_all add: validity_defs toy_defs)
  have non_ntt: "\<not> ct_is_ntt_form ?a" and size: "ct_size ?a = 2"
    by (simp_all add: toy_defs)
  have accepted: "thrown (multiply_inplace (toy_evaluator BFV) ?a ?a) = None"
    by (rule multiply_inplace_accepts [where first_data = "toy_first BFV"],
        simp_all add: validity_defs toy_defs,
        rule bfv_multiply_accepts [where cd = "toy_first BFV"],
        simp_all add: validity_defs toy_defs)
  from square_inplace_is_multiply_inplace [OF valid first non_ntt]
  have "square_inplace (toy_evaluator BFV) ?a = multiply_inplace (toy_evaluator BFV) ?a ?a"
    by blast
  with accepted valid first non_ntt size show ?thesis
    by simp
qed

subsection \<open>The scale of a CKKS product\<close>

lemma ckks_multiply_scale_Returned:
  "ckks_multiply ev e1 e2 = Returned r \<Longrightarrow> ct_scale r = dbl_mul ev (ct_scale e1) (ct_scale e2)"
  by (auto simp: ckks_multiply_def deref_def Let_def
      split: if_splits option.splits sum.splits)

lemma ckks_multiply_scale_out_of_bounds:
  assumes "ct_is_ntt_form e1" "ct_is_ntt_form e2"
    and "get_context_data (context_of ev) (ct_parms_id e1) = Some cd"
    and "total_coeff_modulus_bit_count cd \<le> dbl_log2_int ev (dbl_mul ev (ct_scale e1) (ct_scale e2))"
  shows "ckks_multiply ev e1 e2 = Thrown (invalid_argument ''scale out of bounds'') e1"
  using assms by (simp add: ckks_multiply_def deref_def Let_def)

text \<open>
  C3. Under CKKS, whenever \<open>multiply_inplace\<close> returns, the scale of the result is the
  product \<^verbatim>\<open>encrypted1.scale() * encrypted2.scale()\<close> computed in \<^verbatim>\<open>double\<close>. And for every
  pair of valid ciphertexts in NTT form at one parameter point, if the logarithm to base
  2 of that product, cast to \<^verbatim>\<open>int\<close> as the source does, is at least the total bit count
  of the coefficient modulus of that point, the call throws \<open>invalid_argument\<close> and the
  first operand is as it was.
\<close>

theorem ckks_multiply_scale:
  assumes first: "first_context_data (context_of ev) = Some first_data"
    and ckks: "scheme (parms first_data) = CKKS"
  shows "(\<forall>result. multiply_inplace ev encrypted1 encrypted2 = Returned result \<longrightarrow>
            ct_scale result = dbl_mul ev (ct_scale encrypted1) (ct_scale encrypted2)) \<and>
    (\<forall>context_data.
       is_metadata_valid_for encrypted1 (context_of ev) \<and> is_buffer_valid encrypted1 (context_of ev) \<and>
       is_metadata_valid_for encrypted2 (context_of ev) \<and> is_buffer_valid encrypted2 (context_of ev) \<and>
       ct_parms_id encrypted1 = ct_parms_id encrypted2 \<and>
       ct_is_ntt_form encrypted1 \<and> ct_is_ntt_form encrypted2 \<and>
       get_context_data (context_of ev) (ct_parms_id encrypted1) = Some context_data \<and>
       total_coeff_modulus_bit_count context_data \<le>
         dbl_log2_int ev (dbl_mul ev (ct_scale encrypted1) (ct_scale encrypted2)) \<longrightarrow>
       multiply_inplace ev encrypted1 encrypted2 =
         Thrown (invalid_argument ''scale out of bounds'') encrypted1)"
proof (intro conjI allI impI)
  fix result
  assume "multiply_inplace ev encrypted1 encrypted2 = Returned result"
  with first ckks have "ckks_multiply ev encrypted1 encrypted2 = Returned result"
    by (auto simp: multiply_inplace_def deref_def dest!: and_then_guard_Returned split: if_splits)
  then show "ct_scale result = dbl_mul ev (ct_scale encrypted1) (ct_scale encrypted2)"
    by (rule ckks_multiply_scale_Returned)
next
  fix context_data
  assume a: "is_metadata_valid_for encrypted1 (context_of ev) \<and> is_buffer_valid encrypted1 (context_of ev) \<and>
       is_metadata_valid_for encrypted2 (context_of ev) \<and> is_buffer_valid encrypted2 (context_of ev) \<and>
       ct_parms_id encrypted1 = ct_parms_id encrypted2 \<and>
       ct_is_ntt_form encrypted1 \<and> ct_is_ntt_form encrypted2 \<and>
       get_context_data (context_of ev) (ct_parms_id encrypted1) = Some context_data \<and>
       total_coeff_modulus_bit_count context_data \<le>
         dbl_log2_int ev (dbl_mul ev (ct_scale encrypted1) (ct_scale encrypted2))"
  then have "ckks_multiply ev encrypted1 encrypted2 =
      Thrown (invalid_argument ''scale out of bounds'') encrypted1"
    by (intro ckks_multiply_scale_out_of_bounds [where cd = context_data]) blast+
  with a first ckks show "multiply_inplace ev encrypted1 encrypted2 =
      Thrown (invalid_argument ''scale out of bounds'') encrypted1"
    by (simp add: multiply_inplace_def deref_def)
qed

text \<open>
  In the small chain the first data point has 6 bits. Scales 4 and 4 give 16, accepted;
  scales 8 and 8 give 64, whose logarithm 6 is not below 6: rejected.
\<close>

theorem ckks_multiply_scale_witness:
  "first_context_data (context_of (toy_evaluator CKKS)) = Some (toy_first CKKS) \<and>
   scheme (parms (toy_first CKKS)) = CKKS \<and>
   thrown (multiply_inplace (toy_evaluator CKKS) (toy_ciphertext True 4 toy_polys_a)
       (toy_ciphertext True 4 toy_polys_b)) = None \<and>
   ct_scale (state_of (multiply_inplace (toy_evaluator CKKS) (toy_ciphertext True 4 toy_polys_a)
       (toy_ciphertext True 4 toy_polys_b))) = 16 \<and>
   total_coeff_modulus_bit_count (toy_first CKKS) \<le> toy_log2 (8 * 8) \<and>
   multiply_inplace (toy_evaluator CKKS) (toy_ciphertext True 8 toy_polys_a)
       (toy_ciphertext True 8 toy_polys_b) =
     Thrown (invalid_argument ''scale out of bounds'') (toy_ciphertext True 8 toy_polys_a)"
proof -
  let ?ev = "toy_evaluator CKKS"
  have first: "first_context_data (context_of ?ev) = Some (toy_first CKKS)"
    and ckks: "scheme (parms (toy_first CKKS)) = CKKS"
    by (simp_all add: validity_defs toy_defs)
  note th = ckks_multiply_scale [OF first ckks]
  have accepted: "multiply_inplace ?ev (toy_ciphertext True 4 toy_polys_a) (toy_ciphertext True 4 toy_polys_b) =
      Returned (state_of (multiply_inplace ?ev (toy_ciphertext True 4 toy_polys_a)
        (toy_ciphertext True 4 toy_polys_b)))"
    by (rule thrown_None_Returned [OF toy_ckks_accepts])
  have "ct_scale (state_of (multiply_inplace ?ev (toy_ciphertext True 4 toy_polys_a)
        (toy_ciphertext True 4 toy_polys_b))) =
      dbl_mul ?ev (ct_scale (toy_ciphertext True 4 toy_polys_a)) (ct_scale (toy_ciphertext True 4 toy_polys_b))"
    using th [of "toy_ciphertext True 4 toy_polys_a" "toy_ciphertext True 4 toy_polys_b"] accepted
    by blast
  then have scale: "ct_scale (state_of (multiply_inplace ?ev (toy_ciphertext True 4 toy_polys_a)
        (toy_ciphertext True 4 toy_polys_b))) = 16"
    by (simp add: toy_defs)
  have bits: "total_coeff_modulus_bit_count (toy_first CKKS) \<le> toy_log2 (8 * 8)"
    by (simp add: toy_defs upt_eval)
  have rejected: "multiply_inplace ?ev (toy_ciphertext True 8 toy_polys_a) (toy_ciphertext True 8 toy_polys_b) =
      Thrown (invalid_argument ''scale out of bounds'') (toy_ciphertext True 8 toy_polys_a)"
    using th [of "toy_ciphertext True 8 toy_polys_a" "toy_ciphertext True 8 toy_polys_b"]
    by (simp add: validity_defs toy_defs upt_eval)
  show ?thesis
    using first ckks toy_ckks_accepts scale bits rejected by simp
qed

subsection \<open>The scale after modulus switching\<close>

lemma mod_switch_scale_to_next_ckks:
  assumes "get_context_data (context_of ev) (ct_parms_id encrypted) = Some cd"
    and "next_context_data cd = Some next_data" "scheme (parms next_data) = CKKS"
    and "mod_switch_scale_to_next ev encrypted destination pool = Returned result"
  shows "coeff_modulus (parms cd) \<noteq> [] \<and>
    ct_scale result =
      dbl_div ev (ct_scale encrypted) (dbl_of_uint64 ev (last (coeff_modulus (parms cd))))"
  using assms
  by (auto simp: mod_switch_scale_to_next_def deref_def Let_def
      split: if_splits list.splits)

lemma mod_switch_scale_to_next_bfv:
  assumes "get_context_data (context_of ev) (ct_parms_id encrypted) = Some cd"
    and "next_context_data cd = Some next_data" "scheme (parms next_data) = BFV"
  shows "ct_scale (state_of (mod_switch_scale_to_next ev encrypted destination pool)) =
    ct_scale destination"
  using assms
  by (auto simp: mod_switch_scale_to_next_def deref_def Let_def resize_def
      split: if_splits list.splits)

text \<open>
  C5. Let the ciphertext be at a parameter point with primes \<open>q_0 .. q_{k-1}\<close> that has a
  next point. If the next point is a CKKS point, every returning run of
  \<open>mod_switch_scale_to_next\<close>, and so every returning run of \<open>rescale_to_next\<close>, leaves in
  the destination the scale of the source divided (in \<^verbatim>\<open>double\<close>) by the last prime
  \<open>q_{k-1}\<close> converted to \<^verbatim>\<open>double\<close>. If the next point is a BFV point,
  \<open>mod_switch_scale_to_next\<close> leaves the scale of the destination as it was, whether it
  returns or throws.
\<close>

theorem mod_switch_scale_to_next_scale:
  assumes cd: "get_context_data (context_of ev) (ct_parms_id encrypted) = Some context_data"
    and nxt: "next_context_data context_data = Some next_data"
  shows "(scheme (parms next_data) = CKKS \<longrightarrow>
       (\<forall>result. mod_switch_scale_to_next ev encrypted destination pool = Returned result \<or>
                 rescale_to_next ev encrypted destination pool = Returned result \<longrightarrow>
          coeff_modulus (parms context_data) \<noteq> [] \<and>
          ct_scale result =
            dbl_div ev (ct_scale encrypted)
              (dbl_of_uint64 ev (last (coeff_modulus (parms context_data)))))) \<and>
    (scheme (parms next_data) = BFV \<longrightarrow>
       ct_scale (state_of (mod_switch_scale_to_next ev encrypted destination pool)) =
         ct_scale destination)"
proof -
  have "coeff_modulus (parms context_data) \<noteq> [] \<and>
      ct_scale result =
        dbl_div ev (ct_scale encrypted) (dbl_of_uint64 ev (last (coeff_modulus (parms context_data))))"
    if ckks: "scheme (parms next_data) = CKKS"
      and run: "mod_switch_scale_to_next ev encrypted destination pool = Returned result \<or>
         rescale_to_next ev encrypted destination pool = Returned result"
    for result
  proof -
    from run have "mod_switch_scale_to_next ev encrypted destination pool = Returned result"
      by (auto simp: rescale_to_next_def deref_def dest!: and_then_guard_Returned
          split: if_splits option.splits scheme_type.splits)
    with cd nxt ckks show ?thesis
      by (rule mod_switch_scale_to_next_ckks)
  qed
  moreover have "ct_scale (state_of (mod_switch_scale_to_next ev encrypted destination pool)) =
      ct_scale destination"
    if "scheme (parms next_data) = BFV"
    using cd nxt that by (rule mod_switch_scale_to_next_bfv)
  ultimately show ?thesis
    by blast
qed

text \<open>
  From the first data point (primes 5, 7) to the last (prime 5) of the small chain: under
  CKKS the scale 35 becomes 35 div 7, the division of the stand-in for \<^verbatim>\<open>double\<close>;
  under BFV a destination with scale 9 keeps it.
\<close>

theorem mod_switch_scale_to_next_scale_witness:
  "get_context_data (context_of (toy_evaluator CKKS)) (ct_parms_id (toy_ciphertext True 35 toy_polys_a)) =
     Some (toy_first CKKS) \<and>
   next_context_data (toy_first CKKS) = Some (toy_last CKKS) \<and>
   scheme (parms (toy_last CKKS)) = CKKS \<and>
   rescale_to_next (toy_evaluator CKKS) (toy_ciphertext True 35 toy_polys_a)
       (toy_ciphertext True 35 toy_polys_a) True =
     Returned \<lparr>ct_parms_id = 3, ct_is_ntt_form = True, ct_size = 2, ct_scale = 5,
       ct_data = [[[1, 2]], [[4, 0]]]\<rparr> \<and>
   (5 :: int) = 35 div int (last [5, 7]) \<and>
   scheme (parms (toy_last BFV)) = BFV \<and>
   mod_switch_scale_to_next (toy_evaluator BFV) (toy_ciphertext False 1 toy_polys_a)
       (toy_ciphertext False 9 toy_polys_b) True =
     Returned \<lparr>ct_parms_id = 3, ct_is_ntt_form = False, ct_size = 2, ct_scale = 9,
       ct_data = [[[1, 2]], [[4, 0]]]\<rparr>"
proof -
  let ?a = "toy_ciphertext True 35 toy_polys_a"
  let ?r = "\<lparr>ct_parms_id = 3, ct_is_ntt_form = True, ct_size = 2, ct_scale = 5 :: int,
       ct_data = [[[1, 2]], [[4, 0]]]\<rparr>"
  have cd: "get_context_data (context_of (toy_evaluator CKKS)) (ct_parms_id ?a) = Some (toy_first CKKS)"
    and nxt: "next_context_data (toy_first CKKS) = Some (toy_last CKKS)"
    and ckks: "scheme (parms (toy_last CKKS)) = CKKS"
    by (simp_all add: validity_defs toy_defs)
  have run: "rescale_to_next (toy_evaluator CKKS) ?a ?a True = Returned ?r"
    apply (simp add: rescale_to_next_def mod_switch_scale_to_next_def validity_defs toy_defs Let_def)
    apply (simp add: data_defs upt_eval)
    done
  note th = mod_switch_scale_to_next_scale [OF cd nxt, THEN conjunct1, rule_format, OF ckks]
  have "ct_scale ?r = dbl_div (toy_evaluator CKKS) (ct_scale ?a)
      (dbl_of_uint64 (toy_evaluator CKKS) (last (coeff_modulus (parms (toy_first CKKS)))))"
    by (rule th [OF disjI2 [OF run], THEN conjunct2])
  then have scale: "(5 :: int) = 35 div int (last [5, 7])"
    by (simp add: toy_defs)
  let ?b = "toy_ciphertext False 1 toy_polys_a" and ?d = "toy_ciphertext False 9 toy_polys_b"
  have cd': "get_context_data (context_of (toy_evaluator BFV)) (ct_parms_id ?b) = Some (toy_first BFV)"
    and nxt': "next_context_data (toy_first BFV) = Some (toy_last BFV)"
    and bfv: "scheme (parms (toy_last BFV)) = BFV"
    by (simp_all add: validity_defs toy_defs)
  have run': "mod_switch_scale_to_next (toy_evaluator BFV) ?b ?d True =
      Returned \<lparr>ct_parms_id = 3, ct_is_ntt_form = False, ct_size = 2, ct_scale = 9,
        ct_data = [[[1, 2]], [[4, 0]]]\<rparr>"
    apply (simp add: mod_switch_scale_to_next_def validity_defs toy_defs Let_def)
    apply (simp add: data_defs upt_eval)
    done
  have "ct_scale (state_of (mod_switch_scale_to_next (toy_evaluator BFV) ?b ?d True)) = ct_scale ?d"
    by (rule mod_switch_scale_to_next_scale [OF cd' nxt', THEN conjunct2, rule_format, OF bfv])
  show ?thesis
    by (intro conjI cd nxt ckks run scale bfv run')
qed

subsection \<open>What adding or subtracting a plaintext touches\<close>

lemma transparent_guard_state: "state_of (transparent_guard ev c) = c"
  by (simp add: transparent_guard_def)

lemma drop_1_update_0: "drop 1 (xs[0 := y]) = drop 1 xs"
  by (cases xs) simp_all

lemma add_plain_inplace_frame:
  "ct_size (state_of (add_plain_inplace ev c p)) = ct_size c \<and>
   ct_parms_id (state_of (add_plain_inplace ev c p)) = ct_parms_id c \<and>
   ct_is_ntt_form (state_of (add_plain_inplace ev c p)) = ct_is_ntt_form c \<and>
   ct_scale (state_of (add_plain_inplace ev c p)) = ct_scale c \<and>
   length (ct_data (state_of (add_plain_inplace ev c p))) = length (ct_data c) \<and>
   drop 1 (ct_data (state_of (add_plain_inplace ev c p))) = drop 1 (ct_data c)"
  by (auto simp: add_plain_inplace_def deref_def Let_def transparent_guard_state drop_1_update_0
      split: option.splits scheme_type.splits)

lemma sub_plain_inplace_frame:
  "ct_size (state_of (sub_plain_inplace ev c p)) = ct_size c \<and>
   ct_parms_id (state_of (sub_plain_inplace ev c p)) = ct_parms_id c \<and>
   ct_is_ntt_form (state_of (sub_plain_inplace ev c p)) = ct_is_ntt_form c \<and>
   ct_scale (state_of (sub_plain_inplace ev c p)) = ct_scale c \<and>
   length (ct_data (state_of (sub_plain_inplace ev c p))) = length (ct_data c) \<and>
   drop 1 (ct_data (state_of (sub_plain_inplace ev c p))) = drop 1 (ct_data c)"
  by (auto simp: sub_plain_inplace_def deref_def Let_def transparent_guard_state drop_1_update_0
      split: option.splits scheme_type.splits)

lemma transparent_guard_Returned: "transparent_guard ev c = Returned r \<Longrightarrow> r = c"
  by (auto simp: transparent_guard_def split: if_splits)

text \<open>
  C7. For a BFV ciphertext \<open>c\<close> and a plaintext \<open>p\<close>, what \<open>add_plain_inplace\<close> and
  \<open>sub_plain_inplace\<close> leave, returning or throwing, has the size, the \<open>parms_id\<close>, the NTT
  flag and the scale of \<open>c\<close>, as many polynomials, and the polynomials \<open>c_1 .. c_{s-1}\<close> of
  \<open>c\<close>. When the call returns, \<open>c_0\<close> is what the scaling-variant helper made of the old
  \<open>c_0\<close>.
\<close>

theorem add_sub_plain_inplace_frame:
  assumes cd: "get_context_data (context_of ev) (ct_parms_id encrypted) = Some context_data"
    and bfv: "scheme (parms context_data) = BFV"
  shows "(let after = state_of (add_plain_inplace ev encrypted plain) in
            ct_size after = ct_size encrypted \<and> ct_parms_id after = ct_parms_id encrypted \<and>
            ct_is_ntt_form after = ct_is_ntt_form encrypted \<and> ct_scale after = ct_scale encrypted \<and>
            length (ct_data after) = length (ct_data encrypted) \<and>
            drop 1 (ct_data after) = drop 1 (ct_data encrypted)) \<and>
    (let after = state_of (sub_plain_inplace ev encrypted plain) in
            ct_size after = ct_size encrypted \<and> ct_parms_id after = ct_parms_id encrypted \<and>
            ct_is_ntt_form after = ct_is_ntt_form encrypted \<and> ct_scale after = ct_scale encrypted \<and>
            length (ct_data after) = length (ct_data encrypted) \<and>
            drop 1 (ct_data after) = drop 1 (ct_data encrypted)) \<and>
    (\<forall>result. add_plain_inplace ev encrypted plain = Returned result \<longrightarrow>
       ct_data result ! 0 =
         multiply_add_plain_with_scaling_variant plain context_data (ct_data encrypted ! 0)) \<and>
    (\<forall>result. sub_plain_inplace ev encrypted plain = Returned result \<longrightarrow>
       ct_data result ! 0 =
         multiply_sub_plain_with_scaling_variant plain context_data (ct_data encrypted ! 0))"
proof -
  have add: "ct_data result ! 0 =
      multiply_add_plain_with_scaling_variant plain context_data (ct_data encrypted ! 0)"
    if run: "add_plain_inplace ev encrypted plain = Returned result" for result
  proof -
    from run have "is_metadata_valid_for encrypted (context_of ev)"
      and "is_buffer_valid encrypted (context_of ev)"
      by (auto simp: add_plain_inplace_def split: if_splits)
    then have "0 < length (ct_data encrypted)"
      using cd by (auto simp: is_metadata_valid_for_def dest: is_buffer_valid_length)
    with run cd bfv show ?thesis
      by (auto simp: add_plain_inplace_def deref_def Let_def dest!: transparent_guard_Returned
          split: if_splits)
  qed
  have sub: "ct_data result ! 0 =
      multiply_sub_plain_with_scaling_variant plain context_data (ct_data encrypted ! 0)"
    if run: "sub_plain_inplace ev encrypted plain = Returned result" for result
  proof -
    from run have "is_metadata_valid_for encrypted (context_of ev)"
      and "is_buffer_valid encrypted (context_of ev)"
      by (auto simp: sub_plain_inplace_def split: if_splits)
    then have "0 < length (ct_data encrypted)"
      using cd by (auto simp: is_metadata_valid_for_def dest: is_buffer_valid_length)
    with run cd bfv show ?thesis
      by (auto simp: sub_plain_inplace_def deref_def Let_def dest!: transparent_guard_Returned
          split: if_splits)
  qed
  show ?thesis
    unfolding Let_def
    using add_plain_inplace_frame [of ev encrypted plain]
      sub_plain_inplace_frame [of ev encrypted plain] add sub
    by blast
qed

text \<open>
  Adding the plaintext with coefficients 2, 1 to the size-2 ciphertext of the small BFV
  chain (\<open>q = 35\<close>, \<open>t = 3\<close>, so the scaling factor is 11): \<open>c_0\<close> changes, \<open>c_1\<close> does not.
\<close>

theorem add_sub_plain_inplace_frame_witness:
  "get_context_data (context_of (toy_evaluator BFV)) (ct_parms_id (toy_ciphertext False 1 toy_polys_a)) =
     Some (toy_first BFV) \<and>
   scheme (parms (toy_first BFV)) = BFV \<and>
   add_plain_inplace (toy_evaluator BFV) (toy_ciphertext False 1 toy_polys_a) toy_plain =
     Returned (toy_ciphertext False 1 [[[3, 3], [4, 1]], [[4, 0], [6, 1]]]) \<and>
   drop 1 (ct_data (toy_ciphertext False 1 [[[3, 3], [4, 1]], [[4, 0], [6, 1]]])) =
     drop 1 (ct_data (toy_ciphertext False 1 toy_polys_a)) \<and>
   multiply_add_plain_with_scaling_variant toy_plain (toy_first BFV) [[1, 2], [3, 4]] =
     [[3, 3], [4, 1]]"
proof -
  let ?a = "toy_ciphertext False 1 toy_polys_a"
  let ?r = "toy_ciphertext False 1 [[[3, 3], [4, 1]], [[4, 0], [6, 1]]]"
  have cd: "get_context_data (context_of (toy_evaluator BFV)) (ct_parms_id ?a) = Some (toy_first BFV)"
    and bfv: "scheme (parms (toy_first BFV)) = BFV"
    by (simp_all add: validity_defs toy_defs)
  have run: "add_plain_inplace (toy_evaluator BFV) ?a toy_plain = Returned ?r"
    apply (simp add: add_plain_inplace_def validity_defs is_metadata_valid_for_plain_def
        is_buffer_valid_plain_def pt_is_ntt_form_def pt_coeff_count_def parms_id_zero_def
        toy_defs Let_def)
    apply (simp add: multiply_add_plain_with_scaling_variant_def coeff_div_plain_modulus_def
        pt_coeff_count_def data_defs coeff_defs upt_eval)
    done
  note th = add_sub_plain_inplace_frame [OF cd bfv, of toy_plain]
  have frame: "drop 1 (ct_data (state_of (add_plain_inplace (toy_evaluator BFV) ?a toy_plain))) =
      drop 1 (ct_data ?a)"
    using th [THEN conjunct1] by (simp add: Let_def)
  have first: "ct_data ?r ! 0 =
      multiply_add_plain_with_scaling_variant toy_plain (toy_first BFV) (ct_data ?a ! 0)"
    by (rule th [THEN conjunct2, THEN conjunct2, THEN conjunct1, rule_format, OF run])
  have c1: "drop 1 (ct_data ?r) = drop 1 (ct_data ?a)"
    using frame by (simp add: run)
  have c0: "multiply_add_plain_with_scaling_variant toy_plain (toy_first BFV) [[1, 2], [3, 4]] =
      [[3, 3], [4, 1]]"
    using first by (simp add: toy_ciphertext_def toy_polys_a_def)
  show ?thesis
    by (intro conjI cd bfv run c1 c0)
qed

subsection \<open>Rejections of a Galois automorphism\<close>

text \<open>
  C8. Let the key parameter point exist and the sizes at the parameter point of the
  ciphertext fit in 64 bits (\<open>N * k\<close> and \<open>2 * N\<close>). Then for every ciphertext, every
  Galois element and every key set, if the element is even, or at least \<open>2 * N\<close>, or the
  size of the ciphertext exceeds 2, or the key set has no key for the element,
  \<open>apply_galois_inplace\<close> throws \<open>invalid_argument\<close> and the ciphertext is as it was.
\<close>

theorem apply_galois_inplace_rejects:
  assumes key: "key_context_data (context_of ev) = Some key_data"
    and fits: "\<forall>cd. get_context_data (context_of ev) (ct_parms_id encrypted) = Some cd \<longrightarrow>
        product_fits_in [poly_modulus_degree (parms cd), length (coeff_modulus (parms cd))] \<and>
        product_fits_in [poly_modulus_degree (parms cd), 2]"
    and bad: "\<not> odd galois_elt \<or>
        (\<forall>cd. get_context_data (context_of ev) (ct_parms_id encrypted) = Some cd \<longrightarrow>
           2 * poly_modulus_degree (parms cd) \<le> galois_elt) \<or>
        2 < ct_size encrypted \<or>
        \<not> has_key galois_keys galois_elt"
  shows "\<exists>message. apply_galois_inplace ev encrypted galois_elt galois_keys pool =
      Thrown (invalid_argument message) encrypted"
proof (cases "get_context_data (context_of ev) (ct_parms_id encrypted)")
  case None
  then show ?thesis
    by (simp add: apply_galois_inplace_def is_metadata_valid_for_def)
next
  case (Some cd)
  with fits have m: "mul_safe (poly_modulus_degree (parms cd)) 2 = Inr (poly_modulus_degree (parms cd) * 2)"
    and nk: "product_fits_in [poly_modulus_degree (parms cd), length (coeff_modulus (parms cd))]"
    by (auto simp: mul_safe_def product_fits_in_def)
  from bad Some consider "\<not> has_key galois_keys galois_elt"
    | "has_key galois_keys galois_elt" "\<not> odd galois_elt \<or> poly_modulus_degree (parms cd) * 2 \<le> galois_elt"
    | "has_key galois_keys galois_elt" "odd galois_elt" "galois_elt < poly_modulus_degree (parms cd) * 2"
      "2 < ct_size encrypted"
    by (auto simp: mult.commute) linarith
  then show ?thesis
  proof cases
    case 1
    with Some key nk show ?thesis
      by (simp add: apply_galois_inplace_def deref_def Let_def)
  next
    case 2
    with Some key nk m show ?thesis
      by (auto simp: apply_galois_inplace_def deref_def Let_def)
  next
    case 3
    with Some key nk m show ?thesis
      by (auto simp: apply_galois_inplace_def deref_def Let_def)
  qed
qed

text \<open>
  In the small BFV chain (\<open>N = 2\<close>): the element 4 is even, the element 5 is at least
  \<open>2 * N\<close>, the size-3 ciphertext is too long, and the key set without keys has none for
  the element 3. Each call throws \<open>invalid_argument\<close> and leaves the ciphertext.
\<close>

theorem apply_galois_inplace_rejects_witness:
  "key_context_data (context_of (toy_evaluator BFV)) = Some (toy_key BFV) \<and>
   \<not> odd (4 :: nat) \<and>
   apply_galois_inplace (toy_evaluator BFV) (toy_ciphertext False 1 toy_polys_a) 4
       toy_all_keys True =
     Thrown (invalid_argument ''Galois element is not valid'') (toy_ciphertext False 1 toy_polys_a) \<and>
   apply_galois_inplace (toy_evaluator BFV) (toy_ciphertext False 1 toy_polys_a) 5
       toy_all_keys True =
     Thrown (invalid_argument ''Galois element is not valid'') (toy_ciphertext False 1 toy_polys_a) \<and>
   apply_galois_inplace (toy_evaluator BFV) (toy_ciphertext False 1 toy_polys_b) 3
       toy_all_keys True =
     Thrown (invalid_argument ''encrypted size must be 2'') (toy_ciphertext False 1 toy_polys_b) \<and>
   apply_galois_inplace (toy_evaluator BFV) (toy_ciphertext False 1 toy_polys_a) 3 toy_keys True =
     Thrown (invalid_argument ''Galois key not present'') (toy_ciphertext False 1 toy_polys_a)"
proof -
  let ?ev = "toy_evaluator BFV"
  let ?a = "toy_ciphertext False 1 toy_polys_a" and ?b = "toy_ciphertext False 1 toy_polys_b"
  let ?all = "toy_all_keys"
  have key: "key_context_data (context_of ?ev) = Some (toy_key BFV)"
    by (simp add: validity_defs toy_defs)
  have fits: "\<forall>cd. get_context_data (context_of ?ev) (ct_parms_id c) = Some cd \<longrightarrow>
        product_fits_in [poly_modulus_degree (parms cd), length (coeff_modulus (parms cd))] \<and>
        product_fits_in [poly_modulus_degree (parms cd), 2]" for c :: "int ciphertext"
    by (auto simp: validity_defs toy_defs split: if_splits)
  have even: "\<not> odd (4 :: nat)"
    by simp
  from apply_galois_inplace_rejects [OF key fits, of 4 ?a ?all True] even
  obtain m1 where "apply_galois_inplace ?ev ?a 4 ?all True = Thrown (invalid_argument m1) ?a"
    by auto
  moreover have "thrown (apply_galois_inplace ?ev ?a 4 ?all True) =
      Some (invalid_argument ''Galois element is not valid'')"
    by (simp add: apply_galois_inplace_def mul_safe_def validity_defs toy_defs Let_def)
  ultimately have r1: "apply_galois_inplace ?ev ?a 4 ?all True =
      Thrown (invalid_argument ''Galois element is not valid'') ?a"
    by simp
  have r2: "apply_galois_inplace ?ev ?a 5 ?all True =
      Thrown (invalid_argument ''Galois element is not valid'') ?a"
    by (simp add: apply_galois_inplace_def mul_safe_def validity_defs toy_defs Let_def)
  have r3: "apply_galois_inplace ?ev ?b 3 ?all True =
      Thrown (invalid_argument ''encrypted size must be 2'') ?b"
    by (simp add: apply_galois_inplace_def mul_safe_def validity_defs toy_defs Let_def)
  have r4: "apply_galois_inplace ?ev ?a 3 toy_keys True =
      Thrown (invalid_argument ''Galois key not present'') ?a"
    by (simp add: apply_galois_inplace_def mul_safe_def validity_defs toy_defs Let_def)
  show ?thesis
    by (intro conjI key even r1 r2 r3 r4)
qed

subsection \<open>Rotation by zero steps\<close>

text \<open>
  C10. For a ciphertext at a parameter point that supports batching and Galois keys at
  the key parameter point, \<open>rotate_internal\<close> with \<open>steps = 0\<close> returns at once and the
  ciphertext is as it was. Nothing is asked of the keys but their \<open>parms_id\<close>: the
  statement holds for every key set, one without any key included, and already at call
  depth 1, since the function does not call itself on this path.
\<close>

theorem rotate_internal_zero_steps:
  assumes cd: "get_context_data (context_of ev) (ct_parms_id encrypted) = Some context_data"
    and batching: "using_batching (qualifiers context_data)"
    and keys: "ks_parms_id galois_keys = key_parms_id (context_of ev)"
  shows "rotate_internal (Suc depth) ev encrypted 0 galois_keys pool = Some (Returned encrypted)"
  using assms by simp

text \<open>The key set of the small chain holds no key at all; the rotation by 0 returns.\<close>

theorem rotate_internal_zero_steps_witness:
  "get_context_data (context_of (toy_evaluator BFV)) (ct_parms_id (toy_ciphertext False 1 toy_polys_a)) =
     Some (toy_first BFV) \<and>
   using_batching (qualifiers (toy_first BFV)) \<and>
   ks_parms_id toy_keys = key_parms_id (context_of (toy_evaluator BFV)) \<and>
   ks_data toy_keys = [] \<and> \<not> has_key toy_keys 3 \<and>
   rotate_internal (Suc 0) (toy_evaluator BFV) (toy_ciphertext False 1 toy_polys_a) 0 toy_keys True =
     Some (Returned (toy_ciphertext False 1 toy_polys_a))"
proof -
  have cd: "get_context_data (context_of (toy_evaluator BFV))
      (ct_parms_id (toy_ciphertext False 1 toy_polys_a)) = Some (toy_first BFV)"
    and batching: "using_batching (qualifiers (toy_first BFV))"
    and keys: "ks_parms_id toy_keys = key_parms_id (context_of (toy_evaluator BFV))"
    and none: "ks_data toy_keys = []" "\<not> has_key toy_keys 3"
    by (simp_all add: validity_defs toy_defs)
  show ?thesis
    by (intro conjI cd batching keys none rotate_internal_zero_steps [OF cd batching keys])
qed

subsection \<open>Powers\<close>

text \<open>
  C9. For a ciphertext at a parameter point of the context, relinearization keys whose
  \<open>parms_id\<close> names a parameter point, and an initialized pool: \<open>exponentiate_inplace\<close>
  with exponent 0 throws \<open>invalid_argument\<close> and leaves the ciphertext; with exponent 1 it
  returns the ciphertext as it was; with an exponent \<open>e\<close> of at least 2 it is the call of
  \<open>multiply_many\<close> on a vector of \<open>e\<close> copies of the ciphertext, none of them the
  ciphertext itself, with the ciphertext as destination.
\<close>

theorem exponentiate_inplace_cases:
  assumes cd: "get_context_data (context_of ev) (ct_parms_id encrypted) = Some context_data"
    and rk: "get_context_data (context_of ev) (ks_parms_id relin_keys) = Some key_data"
    and pool: "pool"
  shows "exponentiate_inplace ev encrypted 0 relin_keys pool copies_data =
      Thrown (invalid_argument ''exponent cannot be 0'') encrypted \<and>
    exponentiate_inplace ev encrypted 1 relin_keys pool copies_data = Returned encrypted \<and>
    (2 \<le> exponent \<longrightarrow>
       length (replicate exponent encrypted) = exponent \<and>
       (\<forall>copy \<in> set (replicate exponent encrypted). copy = encrypted) \<and>
       exponentiate_inplace ev encrypted exponent relin_keys pool copies_data =
         multiply_many ev (replicate exponent encrypted) copies_data relin_keys None encrypted pool)"
  using assms by (auto simp: exponentiate_inplace_def Let_def)

text \<open>
  In the small BFV chain: exponents 0 and 1, and exponent 2, where the call is that of
  \<open>multiply_many\<close> on two copies.
\<close>

theorem exponentiate_inplace_cases_witness:
  "get_context_data (context_of (toy_evaluator BFV)) (ct_parms_id (toy_ciphertext False 1 toy_polys_a)) =
     Some (toy_first BFV) \<and>
   get_context_data (context_of (toy_evaluator BFV)) (ks_parms_id toy_keys) = Some (toy_key BFV) \<and>
   exponentiate_inplace (toy_evaluator BFV) (toy_ciphertext False 1 toy_polys_a) 0 toy_keys True id =
     Thrown (invalid_argument ''exponent cannot be 0'') (toy_ciphertext False 1 toy_polys_a) \<and>
   exponentiate_inplace (toy_evaluator BFV) (toy_ciphertext False 1 toy_polys_a) 1 toy_keys True id =
     Returned (toy_ciphertext False 1 toy_polys_a) \<and>
   (2 :: nat) \<le> 2 \<and>
   exponentiate_inplace (toy_evaluator BFV) (toy_ciphertext False 1 toy_polys_a) 2 toy_keys True id =
     multiply_many (toy_evaluator BFV)
       [toy_ciphertext False 1 toy_polys_a, toy_ciphertext False 1 toy_polys_a] id toy_keys None
       (toy_ciphertext False 1 toy_polys_a) True"
proof -
  let ?ev = "toy_evaluator BFV" and ?a = "toy_ciphertext False 1 toy_polys_a"
  have cd: "get_context_data (context_of ?ev) (ct_parms_id ?a) = Some (toy_first BFV)"
    and rk: "get_context_data (context_of ?ev) (ks_parms_id toy_keys) = Some (toy_key BFV)"
    by (simp_all add: validity_defs toy_defs)
  note th = exponentiate_inplace_cases [OF cd rk TrueI, where exponent = 2 and copies_data = id]
  have two: "(2 :: nat) \<le> 2"
    by simp
  have copies: "replicate 2 ?a = [?a, ?a]"
    by (simp add: numeral_2_eq_2)
  have e2: "exponentiate_inplace ?ev ?a 2 toy_keys True id =
      multiply_many ?ev [?a, ?a] id toy_keys None ?a True"
    using th [THEN conjunct2, THEN conjunct2, rule_format, OF two, THEN conjunct2, THEN conjunct2]
    by (simp only: copies)
  show ?thesis
    by (intro conjI cd rk th [THEN conjunct1] th [THEN conjunct2, THEN conjunct1] two e2)
qed

subsection \<open>Many factors under a scheme other than BFV\<close>

text \<open>
  C2 (as the code has it). For a non-empty vector, an initialized pool, a destination
  that is not an element of the vector and a first element at a parameter point whose
  scheme is not BFV, \<open>multiply_many\<close> throws \<open>logic_error\<close> with the message
  "unsupported scheme", and the destination is as it was. The exception is not an
  \<open>invalid_argument\<close>.
\<close>

theorem multiply_many_rejects_other_schemes:
  assumes nonempty: "encrypteds \<noteq> []"
    and pool: "pool"
    and distinct: "\<forall>i<length encrypteds. destination_index \<noteq> Some i"
    and cd: "get_context_data (context_of ev) (ct_parms_id (encrypteds ! 0)) = Some context_data"
    and other: "scheme (parms context_data) \<noteq> BFV"
  shows "multiply_many ev encrypteds data_of relin_keys destination_index destination pool =
    Thrown (logic_error ''unsupported scheme'') destination"
proof -
  have "\<not> list_ex (\<lambda>i. destination_index = Some i) [0..<length encrypteds]"
    using distinct by (auto simp: list_ex_iff)
  with nonempty pool cd other show ?thesis
    by (simp add: multiply_many_def)
qed

text \<open>A vector with one CKKS ciphertext of the small chain and a separate destination.\<close>

theorem multiply_many_rejects_other_schemes_witness:
  "[toy_ciphertext True 4 toy_polys_a] \<noteq> [] \<and>
   get_context_data (context_of (toy_evaluator CKKS))
       (ct_parms_id ([toy_ciphertext True 4 toy_polys_a] ! 0)) = Some (toy_first CKKS) \<and>
   scheme (parms (toy_first CKKS)) \<noteq> BFV \<and>
   multiply_many (toy_evaluator CKKS) [toy_ciphertext True 4 toy_polys_a] id toy_keys None
       (toy_ciphertext True 4 toy_polys_b) True =
     Thrown (logic_error ''unsupported scheme'') (toy_ciphertext True 4 toy_polys_b)"
proof -
  have nonempty: "[toy_ciphertext True 4 toy_polys_a] \<noteq> []"
    and distinct: "\<forall>i<length [toy_ciphertext True 4 toy_polys_a]. (None :: nat option) \<noteq> Some i"
    and cd: "get_context_data (context_of (toy_evaluator CKKS))
       (ct_parms_id ([toy_ciphertext True 4 toy_polys_a] ! 0)) = Some (toy_first CKKS)"
    and other: "scheme (parms (toy_first CKKS)) \<noteq> BFV"
    by (simp_all add: validity_defs toy_defs)
  show ?thesis
    by (intro conjI nonempty cd other
        multiply_many_rejects_other_schemes [OF nonempty TrueI distinct cd other])
qed

text \<open>
  The claim as stated, an \<open>invalid_argument\<close> for every such vector, fails on the same
  input: the exception thrown is a \<open>logic_error\<close>.
\<close>

theorem multiply_many_invalid_argument_counterexample:
  "thrown (multiply_many (toy_evaluator CKKS) [toy_ciphertext True 4 toy_polys_a] id toy_keys None
       (toy_ciphertext True 4 toy_polys_b) True) = Some (logic_error ''unsupported scheme'') \<and>
   \<not> is_invalid_argument (logic_error ''unsupported scheme'')"
  by (simp add: multiply_many_def validity_defs toy_defs)

end
